theory Spec2Isabelle
  imports Complex_Main "HOL-Library.AList"
begin

section \<open>Text and numbers as the Python scripts see them\<close>

text \<open>
  Text is a \<open>string\<close>, whose characters are read as the code points 0 to 255; code points
  above 255 (the Hebrew chain names and category keywords) are outside this model and enter
  it as parameters only.
\<close>

definition is_space :: "char \<Rightarrow> bool" where
  \<comment> \<open>the characters \<open>str.strip()\<close> and \<open>float()\<close> remove: tab to carriage return,
      the separators 0x1c to 0x1f, space, NEL (0x85) and the no-break space (0xa0)\<close>
  "is_space c = ((of_char c :: nat) \<in> {9, 10, 11, 12, 13, 28, 29, 30, 31, 32, 133, 160})"

definition strip :: "string \<Rightarrow> string" where
  "strip s = rev (dropWhile is_space (rev (dropWhile is_space s)))"

definition replace_comma :: "string \<Rightarrow> string" where
  \<comment> \<open>\<open>s.replace(',', '.')\<close>\<close>
  "replace_comma s = map (\<lambda>c. if c = CHR '','' then CHR ''.'' else c) s"

definition lower_ascii :: "string \<Rightarrow> string" where
  "lower_ascii s =
     map (\<lambda>c. if 65 \<le> (of_char c :: nat) \<and> (of_char c :: nat) \<le> 90
               then char_of ((of_char c :: nat) + 32) else c) s"

text \<open>
  A Python \<open>float\<close>: a finite value, one of the two infinities, or not-a-number. A finite
  value is kept as the exact rational the text denotes; what binary64 changes to the sign
  tests of the scripts (underflow to zero, overflow to infinity) is applied by
  \<open>to_double\<close>, the rounding inside the representable range is not modelled.
\<close>

datatype pyfloat = Finite rat | PosInf | NegInf | NaN

datatype py_error = ValueError

definition dbl_tiny :: rat where
  \<comment> \<open>half of the smallest positive binary64 value: a magnitude up to it rounds to zero\<close>
  "dbl_tiny = 1 / 2 ^ 1075"

definition dbl_huge :: rat where
  \<comment> \<open>halfway between the largest binary64 value and \<open>2 ^ 1024\<close>: from here on a
      magnitude rounds to infinity\<close>
  "dbl_huge = 2 ^ 970 * (2 ^ 54 - 1)"

definition to_double :: "rat \<Rightarrow> pyfloat" where
  "to_double r =
     (if \<bar>r\<bar> \<le> dbl_tiny then Finite 0
      else if dbl_huge \<le> r then PosInf
      else if r \<le> - dbl_huge then NegInf
      else Finite r)"

definition py_neg :: "pyfloat \<Rightarrow> pyfloat" where
  "py_neg x = (case x of Finite r \<Rightarrow> Finite (- r) | PosInf \<Rightarrow> NegInf | NegInf \<Rightarrow> PosInf | NaN \<Rightarrow> NaN)"

definition truthy :: "pyfloat \<Rightarrow> bool" where
  \<comment> \<open>\<open>bool(x)\<close>: only zero is false\<close>
  "truthy x = (x \<noteq> Finite 0)"

definition py_lt :: "pyfloat \<Rightarrow> pyfloat \<Rightarrow> bool" where
  \<comment> \<open>\<open>x < y\<close>; every comparison with not-a-number is false\<close>
  "py_lt x y =
     (case (x, y) of
        (NaN, _) \<Rightarrow> False
      | (_, NaN) \<Rightarrow> False
      | (Finite a, Finite b) \<Rightarrow> a < b
      | (NegInf, NegInf) \<Rightarrow> False
      | (NegInf, _) \<Rightarrow> True
      | (_, PosInf) \<Rightarrow> (x \<noteq> PosInf)
      | (_, _) \<Rightarrow> False)"

definition py_le :: "pyfloat \<Rightarrow> pyfloat \<Rightarrow> bool" where
  \<comment> \<open>\<open>x <= y\<close>\<close>
  "py_le x y = (x \<noteq> NaN \<and> y \<noteq> NaN \<and> (x = y \<or> py_lt x y))"

definition gt0 :: "pyfloat \<Rightarrow> bool" where
  \<comment> \<open>\<open>x > 0\<close>\<close>
  "gt0 x = py_lt (Finite 0) x"

definition le0 :: "pyfloat \<Rightarrow> bool" where
  \<comment> \<open>\<open>x <= 0\<close>\<close>
  "le0 x = py_le x (Finite 0)"

definition round_half_even :: "rat \<Rightarrow> int" where
  "round_half_even x =
     (let f = \<lfloor>x\<rfloor>; d = x - of_int f
      in if d < 1 / 2 then f else if 1 / 2 < d then f + 1 else if even f then f else f + 1)"

definition round2 :: "pyfloat \<Rightarrow> pyfloat" where
  \<comment> \<open>\<open>round(x, 2)\<close>: infinities and not-a-number round to themselves\<close>
  "round2 x = (case x of Finite r \<Rightarrow> Finite (of_int (round_half_even (r * 100)) / 100) | _ \<Rightarrow> x)"

subsection \<open>\<open>float(text)\<close>\<close>

text \<open>
  The grammar of \<open>float\<close> on a string, after the surrounding whitespace is removed:
  an optional sign, then \<open>inf\<close>, \<open>infinity\<close> or \<open>nan\<close> in any case, or a decimal
  number (digits with an optional point, or a point followed by digits) with an optional
  exponent. Underscores are allowed between two digits. Anything else raises ValueError.
\<close>

definition is_digit :: "char \<Rightarrow> bool" where
  "is_digit c = (48 \<le> (of_char c :: nat) \<and> (of_char c :: nat) \<le> 57)"

definition digit_val :: "char \<Rightarrow> nat" where
  "digit_val c = of_char c - 48"

fun digits_more :: "string \<Rightarrow> nat list \<times> string" where
  "digits_more [] = ([], [])"
| "digits_more [c] = (if is_digit c then ([digit_val c], []) else ([], [c]))"
| "digits_more (c # d # cs) =
     (if is_digit c then (case digits_more (d # cs) of (ds, r) \<Rightarrow> (digit_val c # ds, r))
      else if c = CHR ''_'' \<and> is_digit d
        then (case digits_more cs of (ds, r) \<Rightarrow> (digit_val d # ds, r))
      else ([], c # d # cs))"

definition digitpart :: "string \<Rightarrow> (nat list \<times> string) option" where
  \<comment> \<open>a digit, then digits each optionally preceded by one underscore; with the rest\<close>
  "digitpart s =
     (case s of
        [] \<Rightarrow> None
      | c # cs \<Rightarrow> if is_digit c then (case digits_more cs of (ds, r) \<Rightarrow> Some (digit_val c # ds, r))
                 else None)"

definition nat_of_digits :: "nat list \<Rightarrow> nat" where
  "nat_of_digits ds = foldl (\<lambda>acc d. 10 * acc + d) 0 ds"

definition number :: "string \<Rightarrow> (nat list \<times> nat list \<times> string) option" where
  \<comment> \<open>integer digits, fraction digits and the rest\<close>
  "number s =
     (case digitpart s of
        Some (ip, r) \<Rightarrow>
          (case r of
             [] \<Rightarrow> Some (ip, [], [])
           | c # r' \<Rightarrow>
               if c = CHR ''.''
               then (case digitpart r' of Some (fp, r'') \<Rightarrow> Some (ip, fp, r'') | None \<Rightarrow> Some (ip, [], r'))
               else Some (ip, [], r))
      | None \<Rightarrow>
          (case s of
             [] \<Rightarrow> None
           | c # r' \<Rightarrow>
               if c = CHR ''.''
               then (case digitpart r' of Some (fp, r'') \<Rightarrow> Some ([], fp, r'') | None \<Rightarrow> None)
               else None))"

definition exponent :: "string \<Rightarrow> int option" where
  \<comment> \<open>the whole rest of the text: empty, or \<open>e\<close>/\<open>E\<close>, an optional sign and digits\<close>
  "exponent s =
     (case s of
        [] \<Rightarrow> Some 0
      | c # r \<Rightarrow>
          if c = CHR ''e'' \<or> c = CHR ''E''
          then (case r of
                  [] \<Rightarrow> None
                | g # r' \<Rightarrow>
                    if g = CHR ''-''
                    then (case digitpart r' of Some (ds, []) \<Rightarrow> Some (- int (nat_of_digits ds)) | _ \<Rightarrow> None)
                    else if g = CHR ''+''
                    then (case digitpart r' of Some (ds, []) \<Rightarrow> Some (int (nat_of_digits ds)) | _ \<Rightarrow> None)
                    else (case digitpart r of Some (ds, []) \<Rightarrow> Some (int (nat_of_digits ds)) | _ \<Rightarrow> None))
          else None)"

definition scale10 :: "rat \<Rightarrow> int \<Rightarrow> rat" where
  "scale10 m e = (if 0 \<le> e then m * 10 ^ nat e else m / 10 ^ nat (- e))"

definition floatvalue :: "string \<Rightarrow> py_error + pyfloat" where
  \<comment> \<open>the unsigned part\<close>
  "floatvalue s =
     (if lower_ascii s = ''inf'' \<or> lower_ascii s = ''infinity'' then Inr PosInf
      else if lower_ascii s = ''nan'' then Inr NaN
      else (case number s of
              None \<Rightarrow> Inl ValueError
            | Some (ip, fp, r) \<Rightarrow>
                (case exponent r of
                   None \<Rightarrow> Inl ValueError
                 | Some e \<Rightarrow>
                     Inr (to_double (scale10 (of_nat (nat_of_digits (ip @ fp))) (e - int (length fp)))))))"

definition py_float :: "string \<Rightarrow> py_error + pyfloat" where
  \<comment> \<open>\<open>float(s)\<close> for a string \<open>s\<close>\<close>
  "py_float s =
     (case strip s of
        [] \<Rightarrow> Inl ValueError
      | c # cs \<Rightarrow>
          if c = CHR ''-'' then map_sum id py_neg (floatvalue cs)
          else if c = CHR ''+'' then floatvalue cs
          else floatvalue (c # cs))"

section \<open>Feed records and field extraction\<close>

text \<open>
  An XML item element, as \<open>item.find(tag)\<close> and \<open>el.text\<close> see it: the children in
  document order, each with its tag and its text (\<open>None\<close> for a child without text).
  \<open>find\<close> returns the first child with the tag, which is what \<open>map_of\<close> does.
\<close>

type_synonym element = "(string \<times> string option) list"

fun get_xml_text :: "element \<Rightarrow> string list \<Rightarrow> string" where
  \<comment> \<open>\<open>scrape_prices.get_xml_text\<close>\<close>
  "get_xml_text element [] = []"
| "get_xml_text element (name # possible_names) =
     (case map_of element name of
        Some (Some text) \<Rightarrow>
          if text \<noteq> [] then strip text else get_xml_text element possible_names
      | _ \<Rightarrow> get_xml_text element possible_names)"

fun first_text :: "element \<Rightarrow> string list \<Rightarrow> string option" where
  \<comment> \<open>the loop \<open>for tag in [...]: el = item.find(tag); if el is not None and el.text: ...; break\<close>
      of \<open>parse_xml_file\<close> and \<open>parse_xml\<close>: the text of the element the loop stops at\<close>
  "first_text item [] = None"
| "first_text item (tag # tags) =
     (case map_of item tag of
        Some (Some text) \<Rightarrow> if text \<noteq> [] then Some text else first_text item tags
      | _ \<Rightarrow> first_text item tags)"

definition nonempty :: "string option \<Rightarrow> bool" where
  \<comment> \<open>the truth value of a variable that is \<open>None\<close> or a string\<close>
  "nonempty v = (case v of None \<Rightarrow> False | Some s \<Rightarrow> s \<noteq> [])"

subsection \<open>\<open>fetch_all_chains.parse_xml_file\<close>\<close>

record product =
  p_barcode :: string
  p_name :: string
  p_price :: pyfloat
  p_chain :: string
  p_chainName :: string
  p_manufacturer :: string
  p_category :: string

definition item_barcode :: "element \<Rightarrow> string option" where
  "item_barcode item = map_option strip (first_text item [''ItemCode'', ''Barcode'', ''barcode''])"

definition item_name :: "element \<Rightarrow> string option" where
  "item_name item =
     map_option strip (first_text item [''ItemName'', ''ItemNm'', ''ProductName'', ''name''])"

definition item_price :: "element \<Rightarrow> pyfloat option" where
  \<comment> \<open>the price loop: the first price element with text decides; a ValueError leaves \<open>None\<close>\<close>
  "item_price item =
     (case first_text item [''ItemPrice'', ''Price'', ''price''] of
        None \<Rightarrow> None
      | Some text \<Rightarrow>
          (case py_float (replace_comma (strip text)) of
             Inl ValueError \<Rightarrow> None
           | Inr v \<Rightarrow> Some v))"

definition item_manufacturer :: "element \<Rightarrow> string" where
  "item_manufacturer item =
     (case first_text item [''ManufacturerName'', ''Manufacturer''] of
        None \<Rightarrow> []
      | Some text \<Rightarrow> strip text)"

definition price_ok :: "pyfloat option \<Rightarrow> bool" where
  \<comment> \<open>\<open>price and price > 0\<close>\<close>
  "price_ok price = (case price of None \<Rightarrow> False | Some v \<Rightarrow> truthy v \<and> gt0 v)"

definition parse_xml_file_item ::
  "(string \<Rightarrow> string) \<Rightarrow> string \<Rightarrow> string \<Rightarrow> element \<Rightarrow> product option" where
  \<comment> \<open>the body of the loop over the items; \<open>None\<close> when nothing is appended\<close>
  "parse_xml_file_item categorize chain_id chain_name item =
     (let barcode = item_barcode item;
          name = item_name item;
          price = item_price item;
          manufacturer = item_manufacturer item
      in if nonempty barcode \<and> nonempty name \<and> price_ok price
         then Some \<lparr>p_barcode = the barcode, p_name = the name, p_price = round2 (the price),
                     p_chain = chain_id, p_chainName = chain_name,
                     p_manufacturer = manufacturer, p_category = categorize (the name)\<rparr>
         else None)"

definition parse_xml_file ::
  "(string \<Rightarrow> string) \<Rightarrow> string \<Rightarrow> string \<Rightarrow> element list option \<Rightarrow> product list" where
  \<comment> \<open>the file is given by its item elements; \<open>None\<close> is a file that cannot be read or
      parsed, whose exception the function catches\<close>
  "parse_xml_file categorize chain_id chain_name file =
     (case file of
        None \<Rightarrow> []
      | Some items \<Rightarrow> List.map_filter (parse_xml_file_item categorize chain_id chain_name) items)"

subsection \<open>\<open>scrape_simple.parse_xml\<close>\<close>

record simple_product =
  s_barcode :: string
  s_name :: string
  s_price :: pyfloat
  s_chain :: string
  s_chainName :: string
  s_category :: string

definition simple_barcode :: "element \<Rightarrow> string option" where
  "simple_barcode item = map_option strip (first_text item [''ItemCode'', ''Barcode'', ''barcode''])"

definition simple_name :: "element \<Rightarrow> string option" where
  "simple_name item = map_option strip (first_text item [''ItemName'', ''ItemNm'', ''ProductName''])"

definition parse_xml_item ::
  "(string \<Rightarrow> string) \<Rightarrow> string \<Rightarrow> string \<Rightarrow> element \<Rightarrow> simple_product option" where
  "parse_xml_item categorize chain_id chain_name item =
     (let barcode = simple_barcode item;
          name = simple_name item;
          price = item_price item
      in if nonempty barcode \<and> nonempty name \<and> price_ok price
         then Some \<lparr>s_barcode = the barcode, s_name = the name, s_price = round2 (the price),
                     s_chain = chain_id, s_chainName = chain_name,
                     s_category = categorize (the name)\<rparr>
         else None)"

definition parse_xml ::
  "(string \<Rightarrow> string) \<Rightarrow> string \<Rightarrow> string \<Rightarrow> element list option \<Rightarrow> simple_product list" where
  "parse_xml categorize chain_id chain_name file =
     (case file of
        None \<Rightarrow> []
      | Some items \<Rightarrow> List.map_filter (parse_xml_item categorize chain_id chain_name) items)"

subsection \<open>\<open>scrape_prices.parse_xml_files_directly\<close>\<close>

record scraped_product =
  x_barcode :: string
  x_name :: string
  x_price :: pyfloat
  x_chain :: string
  x_chain_hebrew :: string
  x_manufacturer :: string
  x_unit_quantity :: string
  x_unit_measure :: string

definition scraped_barcode :: "element \<Rightarrow> string" where
  "scraped_barcode item = get_xml_text item [''ItemCode'', ''Barcode'', ''barcode'']"

definition scraped_name :: "element \<Rightarrow> string" where
  "scraped_name item = get_xml_text item [''ItemName'', ''ProductName'', ''name'', ''ItemNm'']"

definition scraped_item ::
  "string \<Rightarrow> string \<Rightarrow> element \<Rightarrow> py_error + scraped_product option" where
  \<comment> \<open>the body of the loop over the items: the dictionary is built, \<open>float\<close> may raise\<close>
  "scraped_item chain_name chain_hebrew item =
     (let barcode = scraped_barcode item;
          name = scraped_name item;
          text = get_xml_text item [''ItemPrice'', ''Price'', ''price'']
      in case (if text \<noteq> [] then py_float text else Inr (Finite 0)) of
           Inl e \<Rightarrow> Inl e
         | Inr price \<Rightarrow>
             Inr (if barcode \<noteq> [] \<and> name \<noteq> [] \<and> gt0 price
                  then Some \<lparr>x_barcode = barcode, x_name = name, x_price = price,
                              x_chain = chain_name, x_chain_hebrew = chain_hebrew,
                              x_manufacturer = get_xml_text item [''ManufacturerName'', ''Manufacturer''],
                              x_unit_quantity = get_xml_text item [''UnitQty'', ''Quantity''],
                              x_unit_measure = get_xml_text item [''UnitOfMeasure'', ''UOM'']\<rparr>
                  else None))"

fun scraped_items ::
  "string \<Rightarrow> string \<Rightarrow> nat \<Rightarrow> element list \<Rightarrow> scraped_product list \<Rightarrow> scraped_product list" where
  \<comment> \<open>the loop over the items of one file, inside the \<open>try\<close>: an exception leaves the loop
      and the file with the products appended so far\<close>
  "scraped_items chain_name chain_hebrew limit [] products = products"
| "scraped_items chain_name chain_hebrew limit (item # items) products =
     (if limit \<le> length products then products
      else case scraped_item chain_name chain_hebrew item of
             Inl e \<Rightarrow> products
           | Inr None \<Rightarrow> scraped_items chain_name chain_hebrew limit items products
           | Inr (Some product) \<Rightarrow>
               scraped_items chain_name chain_hebrew limit items (products @ [product]))"

definition parse_xml_files_directly ::
  "string \<Rightarrow> string \<Rightarrow> nat \<Rightarrow> element list option list \<Rightarrow> scraped_product list" where
  \<comment> \<open>the files in the order of the directory walk; \<open>None\<close> is a file that is skipped
      (another extension) or cannot be read or parsed\<close>
  "parse_xml_files_directly chain_name chain_hebrew limit files =
     foldl (\<lambda>products file.
              if limit \<le> length products then products
              else case file of
                     None \<Rightarrow> products
                   | Some items \<Rightarrow> scraped_items chain_name chain_hebrew limit items products)
       [] files"

subsection \<open>\<open>import_kaggle.parse_price_csv\<close>\<close>

text \<open>A row of \<open>csv.DictReader\<close>: a column that is missing, or \<open>None\<close>, reads \<open>None\<close>.\<close>

type_synonym row = "string \<rightharpoonup> string"

fun or_get :: "row \<Rightarrow> string list \<Rightarrow> string \<Rightarrow> string" where
  \<comment> \<open>\<open>row.get(k1) or row.get(k2) or ... or default\<close>\<close>
  "or_get row [] dflt = dflt"
| "or_get row (k # ks) dflt =
     (case row k of
        Some v \<Rightarrow> if v \<noteq> [] then v else or_get row ks dflt
      | None \<Rightarrow> or_get row ks dflt)"

record kaggle_product =
  k_barcode :: string
  k_name :: string
  k_price :: pyfloat
  k_chain :: string
  k_chainName :: string
  k_manufacturer :: string
  k_unitQty :: string
  k_unitMeasure :: string
  k_category :: string

definition csv_price :: "string \<Rightarrow> pyfloat" where
  \<comment> \<open>\<open>try: price = float(price_str.replace(',', '.')) except (ValueError, AttributeError): price = 0\<close>\<close>
  "csv_price price_str =
     (case py_float (replace_comma price_str) of Inl ValueError \<Rightarrow> Finite 0 | Inr v \<Rightarrow> v)"

definition csv_barcode :: "row \<Rightarrow> string" where
  "csv_barcode row = strip (or_get row [''ItemCode'', ''item_code'', ''Barcode'', ''barcode''] [])"

definition csv_name :: "row \<Rightarrow> string" where
  "csv_name row = strip (or_get row [''ItemName'', ''item_name'', ''ProductName'', ''product_name''] [])"

definition csv_price_str :: "row \<Rightarrow> string" where
  "csv_price_str row = strip (or_get row [''ItemPrice'', ''item_price'', ''Price'', ''price''] ''0'')"

definition parse_price_csv_row ::
  "(string \<Rightarrow> string) \<Rightarrow> string \<Rightarrow> string \<Rightarrow> row \<Rightarrow> kaggle_product option" where
  \<comment> \<open>the body of the loop over the rows; \<open>None\<close> when the row is skipped\<close>
  "parse_price_csv_row categorize_product chain_id chain_name row =
     (let barcode = csv_barcode row;
          name = csv_name row;
          price_str = csv_price_str row;
          manufacturer = strip (or_get row [''ManufacturerName'', ''manufacturer_name'', ''Manufacturer''] []);
          unit_qty = strip (or_get row [''UnitQty'', ''unit_qty'', ''Quantity''] []);
          unit_measure = strip (or_get row [''UnitOfMeasure'', ''unit_of_measure'', ''UOM''] []);
          price = csv_price price_str
      in if barcode = [] \<or> name = [] \<or> le0 price then None
         else Some \<lparr>k_barcode = barcode, k_name = name, k_price = round2 price,
                     k_chain = chain_id, k_chainName = chain_name, k_manufacturer = manufacturer,
                     k_unitQty = unit_qty, k_unitMeasure = unit_measure,
                     k_category = categorize_product name\<rparr>)"

definition parse_price_csv ::
  "(string \<Rightarrow> string) \<Rightarrow> string \<Rightarrow> string \<Rightarrow> row list option \<Rightarrow> kaggle_product list" where
  "parse_price_csv categorize_product chain_id chain_name file =
     (case file of
        None \<Rightarrow> []
      | Some rows \<Rightarrow> List.map_filter (parse_price_csv_row categorize_product chain_id chain_name) rows)"

section \<open>The cross-chain merge\<close>

text \<open>
  A Python dictionary keeps its keys in insertion order: it is an association list, which
  \<open>AList.update\<close> changes in place for a key that is present and extends at the end for a
  new key.
\<close>

record price_entry =
  e_chain :: string
  e_chainName :: string
  e_price :: pyfloat

subsection \<open>\<open>fetch_all_chains.main\<close>\<close>

record merged_product =
  m_barcode :: string
  m_name :: string
  m_manufacturer :: string
  m_category :: string
  m_prices :: "price_entry list"

definition merge_product ::
  "(string \<times> merged_product) list \<Rightarrow> product \<Rightarrow> (string \<times> merged_product) list" where
  \<comment> \<open>the body of the loop \<open>for p in all_products\<close>\<close>
  "merge_product merged p =
     (let barcode = p_barcode p;
          merged1 =
            (if map_of merged barcode = None
             then AList.update barcode
                    \<lparr>m_barcode = barcode, m_name = p_name p, m_manufacturer = p_manufacturer p,
                     m_category = p_category p, m_prices = []\<rparr> merged
             else merged)
      in case map_of merged1 barcode of
           None \<Rightarrow> merged1
         | Some m \<Rightarrow>
             if \<not> list_ex (\<lambda>pr. e_chain pr = p_chain p) (m_prices m)
             then AList.update barcode
                    (m\<lparr>m_prices := m_prices m @
                          [\<lparr>e_chain = p_chain p, e_chainName = p_chainName p, e_price = p_price p\<rparr>]\<rparr>)
                    merged1
             else merged1)"

definition merge_all :: "product list \<Rightarrow> (string \<times> merged_product) list" where
  "merge_all all_products = foldl merge_product [] all_products"

subsection \<open>\<open>scrape_simple.update_mongodb\<close>, the merge\<close>

record simple_merged =
  sm_barcode :: string
  sm_name :: string
  sm_category :: string
  sm_prices :: "price_entry list"

definition simple_merge_product ::
  "(string \<times> simple_merged) list \<Rightarrow> simple_product \<Rightarrow> (string \<times> simple_merged) list" where
  "simple_merge_product merged p =
     (let barcode = s_barcode p;
          merged1 =
            (if map_of merged barcode = None
             then AList.update barcode
                    \<lparr>sm_barcode = barcode, sm_name = s_name p, sm_category = s_category p,
                     sm_prices = []\<rparr> merged
             else merged)
      in case map_of merged1 barcode of
           None \<Rightarrow> merged1
         | Some m \<Rightarrow>
             if \<not> list_ex (\<lambda>pr. e_chain pr = s_chain p) (sm_prices m)
             then AList.update barcode
                    (m\<lparr>sm_prices := sm_prices m @
                          [\<lparr>e_chain = s_chain p, e_chainName = s_chainName p, e_price = s_price p\<rparr>]\<rparr>)
                    merged1
             else merged1)"

definition simple_merge_all :: "simple_product list \<Rightarrow> (string \<times> simple_merged) list" where
  "simple_merge_all products = foldl simple_merge_product [] products"

subsection \<open>The image address\<close>

definition slice :: "nat \<Rightarrow> nat \<Rightarrow> string \<Rightarrow> string" where
  \<comment> \<open>\<open>s[i:j]\<close> for \<open>0 \<le> i \<le> j\<close>\<close>
  "slice i j s = take (j - i) (drop i s)"

definition image_url :: "string \<Rightarrow> string option" where
  \<comment> \<open>the same expression in \<open>fetch_all_chains.update_mongodb\<close>,
      \<open>scrape_simple.update_mongodb\<close> and \<open>import_kaggle.merge_products_by_barcode\<close>:
      \<open>f"https://.../products/{barcode[:3]}/{barcode[3:6]}/{barcode[6:9]}/{barcode[9:]}/front_he.400.jpg"\<close>
      when \<open>len(barcode) >= 12\<close>, else \<open>None\<close>\<close>
  "image_url barcode =
     (if 12 \<le> length barcode
      then Some (''https://images.openfoodfacts.org/images/products/'' @ take 3 barcode @ ''/''
                 @ slice 3 6 barcode @ ''/'' @ slice 6 9 barcode @ ''/'' @ drop 9 barcode
                 @ ''/front_he.400.jpg'')
      else None)"

subsection \<open>\<open>import_kaggle.merge_products_by_barcode\<close>\<close>

record kaggle_merged =
  km_barcode :: string
  km_name :: string
  km_manufacturer :: string
  km_category :: string
  km_unitQty :: string
  km_unitMeasure :: string
  km_prices :: "price_entry list"
  km_image :: "string option"

definition kaggle_merge_product ::
  "(string \<times> kaggle_merged) list \<Rightarrow> kaggle_product \<Rightarrow> (string \<times> kaggle_merged) list" where
  \<comment> \<open>the body of the inner loop \<open>for product in products\<close>\<close>
  "kaggle_merge_product merged product =
     (let barcode = k_barcode product;
          merged1 =
            (if map_of merged barcode = None
             then AList.update barcode
                    \<lparr>km_barcode = barcode, km_name = k_name product,
                     km_manufacturer = k_manufacturer product, km_category = k_category product,
                     km_unitQty = k_unitQty product, km_unitMeasure = k_unitMeasure product,
                     km_prices = [], km_image = image_url barcode\<rparr> merged
             else merged)
      in case map_of merged1 barcode of
           None \<Rightarrow> merged1
         | Some m \<Rightarrow>
             AList.update barcode
               (m\<lparr>km_prices := km_prices m @
                     [\<lparr>e_chain = k_chain product, e_chainName = k_chainName product,
                       e_price = k_price product\<rparr>]\<rparr>)
               merged1)"

definition kaggle_fold :: "kaggle_product list \<Rightarrow> (string \<times> kaggle_merged) list" where
  \<comment> \<open>the dictionary \<open>merged\<close> after the loop body has run on these products in order\<close>
  "kaggle_fold products = foldl kaggle_merge_product [] products"

definition kaggle_merged_dict ::
  "(string \<times> kaggle_product list) list \<Rightarrow> (string \<times> kaggle_merged) list" where
  \<comment> \<open>the two nested loops: the chains of \<open>chain_products\<close> in key order, the products of
      each chain in list order\<close>
  "kaggle_merged_dict chain_products = kaggle_fold (concat (map snd chain_products))"

definition merge_products_by_barcode ::
  "(string \<times> kaggle_product list) list \<Rightarrow> kaggle_merged list" where
  \<comment> \<open>\<open>result.sort(key=lambda x: -len(x['prices']))\<close> is a stable sort\<close>
  "merge_products_by_barcode chain_products =
     sort_key (\<lambda>x. - int (length (km_prices x))) (map snd (kaggle_merged_dict chain_products))"

section \<open>The persistence projection\<close>

fun min_by_price :: "price_entry \<Rightarrow> price_entry list \<Rightarrow> price_entry" where
  \<comment> \<open>\<open>min(prices, key=lambda p: p['price'])\<close> on a list that starts with \<open>best\<close>:
      a later entry replaces the best one only when its price is smaller\<close>
  "min_by_price best [] = best"
| "min_by_price best (p # ps) =
     (if py_lt (e_price p) (e_price best) then min_by_price p ps else min_by_price best ps)"

definition cheapest :: "price_entry list \<Rightarrow> pyfloat \<times> string" where
  \<comment> \<open>\<open>cheapest['price']\<close> and \<open>cheapest['chainName']\<close>; the value for an empty list is
      \<open>{'price': 0, 'chainName': ''}\<close>\<close>
  "cheapest prices =
     (case prices of
        [] \<Rightarrow> (Finite 0, [])
      | p # ps \<Rightarrow> (e_price (min_by_price p ps), e_chainName (min_by_price p ps)))"

record document =
  d_barcode :: string
  d_name :: string
  d_manufacturer :: string
  d_category :: string
  d_image :: "string option"
  d_prices :: "(price_entry \<times> nat) list"
  d_cheapestPrice :: pyfloat
  d_cheapestChain :: string
  d_lastUpdated :: nat
  d_dataSource :: string

definition document_of :: "nat \<Rightarrow> merged_product \<Rightarrow> document" where
  \<comment> \<open>\<open>fetch_all_chains.update_mongodb\<close>: the filter key and the \<open>$set\<close> document written
      for one product; \<open>now\<close> is the time of the run\<close>
  "document_of now product =
     \<lparr>d_barcode = m_barcode product, d_name = m_name product,
      d_manufacturer = m_manufacturer product, d_category = m_category product,
      d_image = image_url (m_barcode product),
      d_prices = map (\<lambda>p. (p, now)) (m_prices product),
      d_cheapestPrice = fst (cheapest (m_prices product)),
      d_cheapestChain = snd (cheapest (m_prices product)),
      d_lastUpdated = now, d_dataSource = ''python-scraper''\<rparr>"

definition update_mongodb :: "nat \<Rightarrow> merged_product list \<Rightarrow> document list" where
  \<comment> \<open>the documents handed to the store, in order; the store itself is external\<close>
  "update_mongodb now products = map (document_of now) products"

record simple_document =
  sd_barcode :: string
  sd_name :: string
  sd_category :: string
  sd_image :: "string option"
  sd_prices :: "(price_entry \<times> nat) list"
  sd_cheapestPrice :: pyfloat
  sd_cheapestChain :: string
  sd_lastUpdated :: nat
  sd_dataSource :: string

definition simple_document_of :: "nat \<Rightarrow> simple_merged \<Rightarrow> simple_document" where
  "simple_document_of now product =
     \<lparr>sd_barcode = sm_barcode product, sd_name = sm_name product,
      sd_category = sm_category product,
      sd_image = image_url (sm_barcode product),
      sd_prices = map (\<lambda>p. (p, now)) (sm_prices product),
      sd_cheapestPrice = fst (cheapest (sm_prices product)),
      sd_cheapestChain = snd (cheapest (sm_prices product)),
      sd_lastUpdated = now, sd_dataSource = ''python-scraper''\<rparr>"

definition simple_update_mongodb :: "nat \<Rightarrow> simple_product list \<Rightarrow> simple_document list" where
  \<comment> \<open>\<open>scrape_simple.update_mongodb\<close>: merge, then one document per merged product\<close>
  "simple_update_mongodb now products =
     map (simple_document_of now) (map snd (simple_merge_all products))"

section \<open>The batch runs\<close>

subsection \<open>\<open>fetch_all_chains.main\<close>\<close>

definition CHAINS :: "string list" where
  \<comment> \<open>the keys of the chain table\<close>
  "CHAINS =
     [''shufersal'', ''rami_levy'', ''victory'', ''yeinot_bitan'', ''mega'', ''osher_ad'',
      ''hazi_hinam'', ''tiv_taam'', ''yohananof'', ''good_pharm'', ''freshmarket'', ''keshet'',
      ''bareket'', ''stop_market'', ''politzer'', ''zol_vbegadol'', ''super_yuda'']"

record batch_result =
  r_success :: bool
  r_totalProducts :: nat
  r_chainsSummary :: "(string \<times> nat) list"
  r_products :: "merged_product list"
  r_fetchedAt :: nat

datatype outcome =
  Listing
  | Exit nat
  | Printed batch_result
  | Stored "document list"

definition selected_chains :: "string list \<Rightarrow> string list" where
  \<comment> \<open>\<open>selected\<close>: the arguments that are chains, or the major chains when there is no argument\<close>
  "selected_chains args =
     (if args \<noteq> [] then filter (\<lambda>a. a \<in> set CHAINS) args
      else [''shufersal'', ''rami_levy'', ''victory'', ''yeinot_bitan'', ''osher_ad''])"

definition main :: "(string \<Rightarrow> product list) \<Rightarrow> nat \<Rightarrow> string list \<Rightarrow> outcome" where
  \<comment> \<open>\<open>fetch_chain\<close> is what the call for a chain returns: the function catches every
      exception of the download and of the parsing and then returns the empty list;
      \<open>now\<close> is the time of the run, \<open>args\<close> the command line\<close>
  "main fetch_chain now args =
     (if ''--list'' \<in> set args then Listing
      else
        let selected = selected_chains args
        in if selected = [] then Exit 1
           else
             let all_products = concat (map fetch_chain selected);
                 chains_summary =
                   foldl (\<lambda>summary chain_id. AList.update chain_id (length (fetch_chain chain_id)) summary)
                     [] selected;
                 merged = merge_all all_products
             in if ''--update-db'' \<in> set args then Stored (update_mongodb now (map snd merged))
                else Printed \<lparr>r_success = True, r_totalProducts = length merged,
                               r_chainsSummary = chains_summary, r_products = map snd merged,
                               r_fetchedAt = now\<rparr>)"

subsection \<open>\<open>scrape_prices.scrape_multiple_chains\<close>\<close>

definition CHAIN_TO_ENUM :: "string list" where
  \<comment> \<open>the keys of the table\<close>
  "CHAIN_TO_ENUM =
     [''shufersal'', ''rami_levy'', ''victory'', ''yeinot_bitan'', ''tiv_taam'', ''osher_ad'',
      ''hazi_hinam'', ''keshet_teamim'', ''super_pharm'', ''politzer'', ''freshmarket'',
      ''stop_market'', ''bareket'', ''maayan_2000'', ''zol_vbegadol'', ''superyuda'']"

definition DEFAULT_CHAINS :: "string list" where
  "DEFAULT_CHAINS = [''shufersal'', ''rami_levy'', ''victory'']"

datatype scrape_error = LibraryNotInstalled | UnknownChain | ScrapeError

text \<open>What the scraping library does for a chain: it cannot be imported, its task raises,
  or it leaves files in the output directory.\<close>

datatype library = NotInstalled | Raises | Files "element list option list"

record chain_result =
  c_chain :: string
  c_chain_hebrew :: string
  c_success :: bool
  c_error :: "scrape_error option"
  c_products_count :: "nat option"
  c_products :: "scraped_product list"
  c_scraped_at :: "nat option"

definition scrape_chain ::
  "(string \<Rightarrow> string) \<Rightarrow> (string \<Rightarrow> library) \<Rightarrow> nat \<Rightarrow> string \<Rightarrow> nat \<Rightarrow> chain_result" where
  \<comment> \<open>\<open>hebrew\<close> is \<open>CHAIN_NAMES.get(chain_name.lower(), chain_name)\<close>; a key of
      \<open>CHAIN_TO_ENUM\<close> is ASCII, so the ASCII lower-casing decides the lookup\<close>
  "scrape_chain hebrew lib now chain_name limit =
     (let failed = (\<lambda>e. \<lparr>c_chain = chain_name, c_chain_hebrew = hebrew chain_name,
                           c_success = False, c_error = Some e, c_products_count = None,
                           c_products = [], c_scraped_at = None\<rparr>)
      in case lib chain_name of
           NotInstalled \<Rightarrow> failed LibraryNotInstalled
         | Raises \<Rightarrow>
             if lower_ascii chain_name \<notin> set CHAIN_TO_ENUM then failed UnknownChain
             else failed ScrapeError
         | Files files \<Rightarrow>
             if lower_ascii chain_name \<notin> set CHAIN_TO_ENUM then failed UnknownChain
             else
               let products = parse_xml_files_directly chain_name (hebrew chain_name) limit files
               in \<lparr>c_chain = chain_name, c_chain_hebrew = hebrew chain_name,
                   c_success = True, c_error = None, c_products_count = Some (length products),
                   c_products = products, c_scraped_at = Some now\<rparr>)"

record results =
  rs_success :: bool
  rs_scraped_at :: nat
  rs_chains :: "(string \<times> chain_result) list"
  rs_total_products :: "nat option"

definition scrape_step ::
  "(string \<Rightarrow> string) \<Rightarrow> (string \<Rightarrow> library) \<Rightarrow> nat \<Rightarrow> nat \<Rightarrow> results \<Rightarrow> string \<Rightarrow> results" where
  \<comment> \<open>the body of the loop \<open>for chain in chains\<close>\<close>
  "scrape_step hebrew lib now limit results chain =
     (let chain_result = scrape_chain hebrew lib now chain limit;
          results1 = results\<lparr>rs_chains := AList.update chain chain_result (rs_chains results)\<rparr>
      in if \<not> c_success chain_result then results1\<lparr>rs_success := False\<rparr> else results1)"

definition scrape_multiple_chains ::
  "(string \<Rightarrow> string) \<Rightarrow> (string \<Rightarrow> library) \<Rightarrow> nat \<Rightarrow> string list option \<Rightarrow> nat \<Rightarrow> results" where
  \<comment> \<open>\<open>requested\<close> is the argument \<open>chains\<close>, \<open>None\<close> when it is not given\<close>
  "scrape_multiple_chains hebrew lib now requested limit =
     (let chains1 = (case requested of None \<Rightarrow> DEFAULT_CHAINS | Some cs \<Rightarrow> cs);
          results =
            foldl (scrape_step hebrew lib now limit)
              \<lparr>rs_success = True, rs_scraped_at = now, rs_chains = [], rs_total_products = None\<rparr>
              chains1
      in results\<lparr>rs_total_products :=
           Some (sum_list (map (\<lambda>c. case c_products_count c of None \<Rightarrow> 0 | Some n \<Rightarrow> n)
                            (map snd (rs_chains results))))\<rparr>)"

subsection \<open>\<open>import_kaggle.main\<close>\<close>

record import_result =
  i_success :: bool
  i_error :: "string option"
  i_instructions :: "string list option"
  i_importedAt :: "nat option"
  i_totalProducts :: "nat option"
  i_chainsSummary :: "(string \<times> nat) list option"
  i_products :: "kaggle_merged list"

definition import_main ::
  "bool \<Rightarrow> (string \<times> kaggle_product list) list \<Rightarrow> string list option \<Rightarrow> nat \<Rightarrow> import_result" where
  \<comment> \<open>the result handed to \<open>output_result\<close>. \<open>data_ready\<close>: the given data directory exists, or
      the download succeeded; \<open>chain_products\<close>: what \<open>find_and_parse_csvs\<close> returns, which
      has an entry for a chain only once a file of the chain gave a product (\<open>if products:\<close>);
      \<open>wanted\<close>: the option \<open>--chains\<close>; \<open>now\<close>: the time of the run\<close>
  "import_main data_ready chain_products wanted now =
     (if \<not> data_ready
      then \<lparr>i_success = False,
            i_error = Some ''Could not download Kaggle dataset. Please set KAGGLE_USERNAME and KAGGLE_KEY environment variables.'',
            i_instructions = Some [''1. Create Kaggle account at kaggle.com'',
                                   ''2. Go to Account Settings -> Create New API Token'',
                                   ''3. Set KAGGLE_USERNAME and KAGGLE_KEY in Render environment''],
            i_importedAt = None, i_totalProducts = None, i_chainsSummary = None, i_products = []\<rparr>
      else if chain_products = []
      then \<lparr>i_success = False, i_error = Some ''No price files found in dataset'',
            i_instructions = None, i_importedAt = None, i_totalProducts = None,
            i_chainsSummary = None, i_products = []\<rparr>
      else
        let chain_products1 =
              (case wanted of
                 None \<Rightarrow> chain_products
               | Some cs \<Rightarrow>
                   if cs \<noteq> [] then filter (\<lambda>kv. fst kv \<in> set cs) chain_products else chain_products);
            merged_products = merge_products_by_barcode chain_products1;
            chains_summary = map (\<lambda>kv. (fst kv, length (snd kv))) chain_products1
        in \<lparr>i_success = True, i_error = None, i_instructions = None, i_importedAt = Some now,
            i_totalProducts = Some (length merged_products), i_chainsSummary = Some chains_summary,
            i_products = merged_products\<rparr>)"

section \<open>The specification's extractor and alias table\<close>

text \<open>
  The Field Extractor as the specification words it: the aliases are tried in order and the
  first present value whose trimmed text is non-empty is returned, absence otherwise.
\<close>

fun spec_extract :: "element \<Rightarrow> string list \<Rightarrow> string option" where
  "spec_extract record [] = None"
| "spec_extract record (alias # aliases) =
     (case map_of record alias of
        Some (Some text) \<Rightarrow>
          if strip text \<noteq> [] then Some (strip text) else spec_extract record aliases
      | _ \<Rightarrow> spec_extract record aliases)"

definition spec_name_aliases :: "string list" where
  \<comment> \<open>the row of the alias table for the name\<close>
  "spec_name_aliases = [''ItemName'', ''ItemNm'', ''ProductName'', ''name'', ''item_name'', ''product_name'']"

definition has_text :: "element \<Rightarrow> string \<Rightarrow> bool" where
  \<comment> \<open>the element has a child with this tag, and the first such child has text\<close>
  "has_text item tag = (case map_of item tag of Some (Some text) \<Rightarrow> text \<noteq> [] | _ \<Rightarrow> False)"

definition text_of :: "element \<Rightarrow> string \<Rightarrow> string" where
  "text_of item tag = (case map_of item tag of Some (Some text) \<Rightarrow> text | _ \<Rightarrow> [])"

definition row_text :: "row \<Rightarrow> string \<Rightarrow> string" where
  "row_text row k = (case row k of Some v \<Rightarrow> v | None \<Rightarrow> [])"

definition row_has :: "row \<Rightarrow> string \<Rightarrow> bool" where
  \<comment> \<open>the column is present in the row with a non-empty value\<close>
  "row_has row k = (case row k of Some v \<Rightarrow> v \<noteq> [] | None \<Rightarrow> False)"

section \<open>Sample records\<close>

text \<open>The records of the specification's end-to-end example, for the concrete checks below.\<close>

definition sample_categorize :: "string \<Rightarrow> string" where
  "sample_categorize name = ''general''"

definition milk_a :: product where
  "milk_a = \<lparr>p_barcode = ''111'', p_name = ''Milk'', p_price = Finite 5, p_chain = ''A'',
             p_chainName = ''Chain A'', p_manufacturer = [], p_category = ''general''\<rparr>"

definition milk_b :: product where
  "milk_b = \<lparr>p_barcode = ''111'', p_name = ''Milk2'', p_price = Finite (9 / 2), p_chain = ''B'',
             p_chainName = ''Chain B'', p_manufacturer = [], p_category = ''general''\<rparr>"

definition milk_merged :: merged_product where
  "milk_merged =
     \<lparr>m_barcode = ''111'', m_name = ''Milk'', m_manufacturer = [], m_category = ''general'',
      m_prices = [\<lparr>e_chain = ''A'', e_chainName = ''Chain A'', e_price = Finite 5\<rparr>,
                  \<lparr>e_chain = ''B'', e_chainName = ''Chain B'', e_price = Finite (9 / 2)\<rparr>]\<rparr>"

definition simple_milk_a :: simple_product where
  "simple_milk_a = \<lparr>s_barcode = ''111'', s_name = ''Milk'', s_price = Finite 5, s_chain = ''A'',
                    s_chainName = ''Chain A'', s_category = ''general''\<rparr>"

definition simple_milk_b :: simple_product where
  "simple_milk_b = \<lparr>s_barcode = ''111'', s_name = ''Milk2'', s_price = Finite (9 / 2), s_chain = ''B'',
                    s_chainName = ''Chain B'', s_category = ''general''\<rparr>"

definition simple_milk_merged :: simple_merged where
  "simple_milk_merged =
     \<lparr>sm_barcode = ''111'', sm_name = ''Milk'', sm_category = ''general'',
      sm_prices = [\<lparr>e_chain = ''A'', e_chainName = ''Chain A'', e_price = Finite 5\<rparr>,
                   \<lparr>e_chain = ''B'', e_chainName = ''Chain B'', e_price = Finite (9 / 2)\<rparr>]\<rparr>"

text \<open>Two rows of one chain's price files with the same item code, as two stores of the
  chain publish them.\<close>

definition milk_row_1 :: row where
  "milk_row_1 = [''ItemCode'' \<mapsto> ''111'', ''ItemName'' \<mapsto> ''Milk'', ''ItemPrice'' \<mapsto> ''5.0'']"

definition milk_row_2 :: row where
  "milk_row_2 = [''ItemCode'' \<mapsto> ''111'', ''ItemName'' \<mapsto> ''Milk'', ''ItemPrice'' \<mapsto> ''6.0'']"

definition kaggle_milk :: "pyfloat \<Rightarrow> kaggle_product" where
  "kaggle_milk price =
     \<lparr>k_barcode = ''111'', k_name = ''Milk'', k_price = price, k_chain = ''shufersal'',
      k_chainName = ''Shufersal'', k_manufacturer = [], k_unitQty = [], k_unitMeasure = [],
      k_category = ''general''\<rparr>"

definition kaggle_milk_merged :: kaggle_merged where
  "kaggle_milk_merged =
     \<lparr>km_barcode = ''111'', km_name = ''Milk'', km_manufacturer = [], km_category = ''general'',
      km_unitQty = [], km_unitMeasure = [],
      km_prices = [\<lparr>e_chain = ''shufersal'', e_chainName = ''Shufersal'', e_price = Finite 5\<rparr>,
                   \<lparr>e_chain = ''shufersal'', e_chainName = ''Shufersal'', e_price = Finite 6\<rparr>],
      km_image = None\<rparr>"

text \<open>Feed records with a price in comma notation, with a price that is no number, with
  the price text \<open>nan\<close>, and a plain one.\<close>

definition comma_item :: element where
  "comma_item = [(''ItemCode'', Some ''111''), (''ItemName'', Some ''Milk''), (''ItemPrice'', Some ''12,50'')]"

definition abc_item :: element where
  "abc_item = [(''ItemCode'', Some ''111''), (''ItemName'', Some ''Milk''), (''ItemPrice'', Some ''abc'')]"

definition nan_item :: element where
  "nan_item = [(''ItemCode'', Some ''111''), (''ItemName'', Some ''Milk''), (''ItemPrice'', Some ''nan'')]"

definition plain_item :: element where
  "plain_item = [(''ItemCode'', Some ''222''), (''ItemName'', Some ''Bread''), (''ItemPrice'', Some ''5.0'')]"

definition nan_row :: row where
  "nan_row = [''ItemCode'' \<mapsto> ''111'', ''ItemName'' \<mapsto> ''Milk'', ''ItemPrice'' \<mapsto> ''nan'']"

definition milk_from :: "pyfloat \<Rightarrow> product" where
  "milk_from price =
     \<lparr>p_barcode = ''111'', p_name = ''Milk'', p_price = price, p_chain = ''shufersal'',
      p_chainName = ''Shufersal'', p_manufacturer = [], p_category = ''general''\<rparr>"

definition scraped_bread :: scraped_product where
  "scraped_bread =
     \<lparr>x_barcode = ''222'', x_name = ''Bread'', x_price = Finite 5, x_chain = ''shufersal'',
      x_chain_hebrew = ''Shufersal'', x_manufacturer = [], x_unit_quantity = [],
      x_unit_measure = []\<rparr>"

text \<open>Environments of a batch run in which no chain yields a product.\<close>

definition fetch_nothing :: "string \<Rightarrow> product list" where
  \<comment> \<open>every \<open>fetch_chain\<close> call fails and returns the empty list\<close>
  "fetch_nothing chain_id = []"

definition library_raises :: "string \<Rightarrow> library" where
  \<comment> \<open>the scraping task raises for every chain\<close>
  "library_raises chain_name = Raises"

definition sample_hebrew :: "string \<Rightarrow> string" where
  "sample_hebrew chain_name = chain_name"

section \<open>Evaluation lemmas\<close>

lemma dbl_tiny_pos: "0 < dbl_tiny"
  unfolding dbl_tiny_def by (rule divide_pos_pos, rule zero_less_one, rule zero_less_power) simp

lemma dbl_tiny_small: "dbl_tiny < 1 / 1000"
proof -
  have "(2::rat) ^ 10 \<le> 2 ^ 1075"
    by (rule power_increasing) simp_all
  then have "1 / (2::rat) ^ 1075 \<le> 1 / 2 ^ 10"
    by (rule divide_left_mono) (rule zero_le_one, rule mult_pos_pos, rule zero_less_power, simp, rule zero_less_power, simp)
  moreover have "1 / (2::rat) ^ 10 < 1 / 1000"
    by simp
  ultimately show ?thesis
    unfolding dbl_tiny_def by (rule le_less_trans)
qed

lemma dbl_huge_large: "1000000000 < dbl_huge"
proof -
  have "(2::rat) ^ 0 \<le> 2 ^ 970"
    by (rule power_increasing) simp_all
  then have one: "(1::rat) \<le> 2 ^ 970"
    by (simp only: power_0)
  have "(1000000000::rat) < 1 * (2 ^ 54 - 1)"
    by simp
  also have "\<dots> \<le> 2 ^ 970 * (2 ^ 54 - 1)"
    by (rule mult_right_mono [OF one]) simp
  finally show ?thesis
    unfolding dbl_huge_def .
qed

lemma to_double_zero: "to_double 0 = Finite 0"
  using dbl_tiny_pos by (simp add: to_double_def)

lemma to_double_mid:
  "1 / 1000 \<le> \<bar>r\<bar> \<Longrightarrow> \<bar>r\<bar> \<le> 1000000000 \<Longrightarrow> to_double r = Finite r"
  using dbl_tiny_small dbl_huge_large by (auto simp: to_double_def)

lemmas float_eval =
  py_float_def strip_def is_space_def replace_comma_def lower_ascii_def floatvalue_def
  number_def digitpart_def is_digit_def digit_val_def exponent_def nat_of_digits_def
  scale10_def to_double_zero to_double_mid py_neg_def

section \<open>Comparison of prices and the cheapest entry\<close>

lemma py_le_refl: "x \<noteq> NaN \<Longrightarrow> py_le x x"
  by (simp add: py_le_def)

lemma py_lt_imp_le: "py_lt x y \<Longrightarrow> py_le x y"
  by (cases x; cases y) (auto simp: py_le_def py_lt_def)

lemma py_not_lt_imp_le: "\<not> py_lt x y \<Longrightarrow> x \<noteq> NaN \<Longrightarrow> y \<noteq> NaN \<Longrightarrow> py_le y x"
  by (cases x; cases y) (auto simp: py_le_def py_lt_def)

lemma py_le_trans: "py_le x y \<Longrightarrow> py_le y z \<Longrightarrow> py_le x z"
  by (cases x; cases y; cases z) (auto simp: py_le_def py_lt_def)

lemma min_by_price_mem: "min_by_price best ps \<in> set (best # ps)"
  by (induction ps arbitrary: best) (auto split: if_splits)

lemma min_by_price_le:
  "\<forall>p \<in> set (best # ps). e_price p \<noteq> NaN \<Longrightarrow>
   \<forall>p \<in> set (best # ps). py_le (e_price (min_by_price best ps)) (e_price p)"
proof (induction ps arbitrary: best)
  case Nil
  then show ?case by (simp add: py_le_refl)
next
  case (Cons q qs)
  show ?case
  proof (cases "py_lt (e_price q) (e_price best)")
    case True
    from Cons.prems have "\<forall>p \<in> set (q # qs). e_price p \<noteq> NaN" by simp
    then have ih: "\<forall>p \<in> set (q # qs). py_le (e_price (min_by_price q qs)) (e_price p)"
      by (rule Cons.IH)
    then have "py_le (e_price (min_by_price q qs)) (e_price q)" by simp
    moreover have "py_le (e_price q) (e_price best)" using True by (rule py_lt_imp_le)
    ultimately have "py_le (e_price (min_by_price q qs)) (e_price best)" by (rule py_le_trans)
    with ih True show ?thesis by simp
  next
    case False
    from Cons.prems have "\<forall>p \<in> set (best # qs). e_price p \<noteq> NaN" by simp
    then have ih: "\<forall>p \<in> set (best # qs). py_le (e_price (min_by_price best qs)) (e_price p)"
      by (rule Cons.IH)
    then have "py_le (e_price (min_by_price best qs)) (e_price best)" by simp
    moreover have "py_le (e_price best) (e_price q)"
      using False Cons.prems by (intro py_not_lt_imp_le) simp_all
    ultimately have "py_le (e_price (min_by_price best qs)) (e_price q)" by (rule py_le_trans)
    with ih False show ?thesis by simp
  qed
qed

lemma cheapest_nonempty:
  "prices \<noteq> [] \<Longrightarrow> \<exists>e \<in> set prices. cheapest prices = (e_price e, e_chainName e)"
  using min_by_price_mem by (cases prices) (auto simp: cheapest_def simp del: set_simps)

lemma cheapest_minimum:
  assumes "\<forall>p \<in> set prices. e_price p \<noteq> NaN" and "prices \<noteq> []"
  shows "\<exists>e \<in> set prices. cheapest prices = (e_price e, e_chainName e)
           \<and> (\<forall>p \<in> set prices. py_le (e_price e) (e_price p))"
proof -
  from assms(2) obtain b ps where eq: "prices = b # ps" by (cases prices) auto
  have "min_by_price b ps \<in> set prices" unfolding eq by (rule min_by_price_mem)
  moreover have "cheapest prices = (e_price (min_by_price b ps), e_chainName (min_by_price b ps))"
    by (simp add: eq cheapest_def)
  moreover have "\<forall>p \<in> set prices. py_le (e_price (min_by_price b ps)) (e_price p)"
    using assms(1) unfolding eq by (rule min_by_price_le)
  ultimately show ?thesis by blast
qed

section \<open>The image address\<close>

lemma image_url_some:
  "12 \<le> length barcode \<Longrightarrow>
   image_url barcode =
     Some (''https://images.openfoodfacts.org/images/products/'' @ take 3 barcode @ ''/''
           @ take 3 (drop 3 barcode) @ ''/'' @ take 3 (drop 6 barcode) @ ''/'' @ drop 9 barcode
           @ ''/front_he.400.jpg'')"
  by (simp add: image_url_def slice_def)

lemma segments_append:
  "take 3 b @ take 3 (drop 3 b) @ take 3 (drop 6 b) @ drop 9 b = b"
proof -
  have "take 3 (drop 6 b) @ drop 9 b = drop 6 b"
    using append_take_drop_id [of 3 "drop 6 b"] by simp
  moreover have "take 3 (drop 3 b) @ drop 6 b = drop 3 b"
    using append_take_drop_id [of 3 "drop 3 b"] by simp
  ultimately show ?thesis by simp
qed

lemma three_chars:
  "n + 3 \<le> length b \<Longrightarrow> take 3 (drop n b) = [b ! n, b ! (n + 1), b ! (n + 2)]"
  by (simp add: list_eq_iff_nth_eq less_Suc_eq numeral_3_eq_3 add.commute)

lemma image_url_inj:
  assumes "12 \<le> length b1" and "12 \<le> length b2" and "image_url b1 = image_url b2"
  shows "b1 = b2"
proof -
  have e: "take 3 b1 @ ''/'' @ take 3 (drop 3 b1) @ ''/'' @ take 3 (drop 6 b1) @ ''/'' @ drop 9 b1
             @ ''/front_he.400.jpg''
           = take 3 b2 @ ''/'' @ take 3 (drop 3 b2) @ ''/'' @ take 3 (drop 6 b2) @ ''/'' @ drop 9 b2
             @ ''/front_he.400.jpg''"
    using assms by (simp add: image_url_some)
  have l1: "length (take 3 b1) = length (take 3 b2)" using assms by simp
  from e l1 have a: "take 3 b1 = take 3 b2"
    and r1: "take 3 (drop 3 b1) @ ''/'' @ take 3 (drop 6 b1) @ ''/'' @ drop 9 b1 @ ''/front_he.400.jpg''
           = take 3 (drop 3 b2) @ ''/'' @ take 3 (drop 6 b2) @ ''/'' @ drop 9 b2 @ ''/front_he.400.jpg''"
    by (simp_all add: append_eq_append_conv)
  have l2: "length (take 3 (drop 3 b1)) = length (take 3 (drop 3 b2))" using assms by simp
  from r1 l2 have b: "take 3 (drop 3 b1) = take 3 (drop 3 b2)"
    and r2: "take 3 (drop 6 b1) @ ''/'' @ drop 9 b1 @ ''/front_he.400.jpg''
           = take 3 (drop 6 b2) @ ''/'' @ drop 9 b2 @ ''/front_he.400.jpg''"
    by (simp_all add: append_eq_append_conv)
  have l3: "length (take 3 (drop 6 b1)) = length (take 3 (drop 6 b2))" using assms by simp
  from r2 l3 have c: "take 3 (drop 6 b1) = take 3 (drop 6 b2)"
    and r3: "drop 9 b1 @ ''/front_he.400.jpg'' = drop 9 b2 @ ''/front_he.400.jpg''"
    by (simp_all add: append_eq_append_conv)
  from r3 have d: "drop 9 b1 = drop 9 b2" by simp
  have "b1 = take 3 b1 @ take 3 (drop 3 b1) @ take 3 (drop 6 b1) @ drop 9 b1"
    by (rule segments_append [symmetric])
  also have "\<dots> = take 3 b2 @ take 3 (drop 3 b2) @ take 3 (drop 6 b2) @ drop 9 b2"
    by (simp only: a b c d)
  also have "\<dots> = b2" by (rule segments_append)
  finally show ?thesis .
qed

lemma image_example:
  "image_url ''7290000066318''
     = Some ''https://images.openfoodfacts.org/images/products/729/000/006/6318/front_he.400.jpg''"
  by (simp add: image_url_def slice_def)

section \<open>Invariants of the merge of \<open>fetch_all_chains\<close>\<close>

lemma find_snoc:
  "List.find P (xs @ [x]) = (case List.find P xs of None \<Rightarrow> (if P x then Some x else None) | Some y \<Rightarrow> Some y)"
  by (induction xs) auto

lemma map_of_merge_product:
  "map_of (merge_product merged p) b =
     (if b = p_barcode p
      then Some (case map_of merged b of
                   None \<Rightarrow> \<lparr>m_barcode = b, m_name = p_name p, m_manufacturer = p_manufacturer p,
                             m_category = p_category p,
                             m_prices = [\<lparr>e_chain = p_chain p, e_chainName = p_chainName p, e_price = p_price p\<rparr>]\<rparr>
                 | Some m \<Rightarrow>
                     if list_ex (\<lambda>pr. e_chain pr = p_chain p) (m_prices m) then m
                     else m\<lparr>m_prices := m_prices m @
                            [\<lparr>e_chain = p_chain p, e_chainName = p_chainName p, e_price = p_price p\<rparr>]\<rparr>)
      else map_of merged b)"
  by (auto simp: merge_product_def Let_def update_conv' split: option.splits)

lemma keys_merge_product:
  "distinct (map fst merged) \<Longrightarrow> distinct (map fst (merge_product merged p))"
  by (auto simp: merge_product_def Let_def distinct_update split: option.splits)

lemma merge_all_snoc: "merge_all (ps @ [p]) = merge_product (merge_all ps) p"
  by (simp add: merge_all_def)

lemma merge_all_keys: "distinct (map fst (merge_all ps))"
  by (induction ps rule: rev_induct) (simp_all add: merge_all_snoc keys_merge_product, simp add: merge_all_def)

lemma merge_all_none:
  "map_of (merge_all ps) b = None \<Longrightarrow> List.find (\<lambda>p. p_barcode p = b) ps = None"
proof (induction ps rule: rev_induct)
  case Nil
  then show ?case by simp
next
  case (snoc p ps)
  then show ?case
    by (auto simp: merge_all_snoc map_of_merge_product find_snoc split: if_splits)
qed

lemma merge_all_entry:
  "map_of (merge_all ps) b = Some m \<Longrightarrow>
     m_barcode m = b \<and> m_prices m \<noteq> [] \<and> distinct (map e_chain (m_prices m))
     \<and> (\<exists>p0. List.find (\<lambda>p. p_barcode p = b) ps = Some p0 \<and> m_name m = p_name p0
              \<and> m_manufacturer m = p_manufacturer p0 \<and> m_category m = p_category p0)"
proof (induction ps arbitrary: m rule: rev_induct)
  case Nil
  then show ?case by (simp add: merge_all_def)
next
  case (snoc p ps)
  show ?case
  proof (cases "b = p_barcode p")
    case False
    with snoc.prems have "map_of (merge_all ps) b = Some m"
      by (simp add: merge_all_snoc map_of_merge_product)
    from snoc.IH [OF this] show ?thesis by (auto simp: find_snoc)
  next
    case True
    show ?thesis
    proof (cases "map_of (merge_all ps) b")
      case None
      then have "List.find (\<lambda>p. p_barcode p = b) ps = None" by (rule merge_all_none)
      with snoc.prems True None show ?thesis
        by (auto simp: merge_all_snoc map_of_merge_product find_snoc)
    next
      case (Some m0)
      from snoc.IH [OF Some] snoc.prems True Some show ?thesis
        by (auto simp: merge_all_snoc map_of_merge_product find_snoc list_ex_iff split: if_splits)
          blast
    qed
  qed
qed

lemma merge_all_values:
  "m \<in> set (map snd (merge_all ps)) \<Longrightarrow> map_of (merge_all ps) (m_barcode m) = Some m"
proof -
  assume "m \<in> set (map snd (merge_all ps))"
  then obtain k where k: "(k, m) \<in> set (merge_all ps)" by auto
  then have s: "map_of (merge_all ps) k = Some m"
    using merge_all_keys by simp
  from merge_all_entry [OF s] have "m_barcode m = k" by simp
  with s show ?thesis by simp
qed

section \<open>Invariants of the merge of \<open>scrape_simple\<close>\<close>

lemma map_of_simple_merge_product:
  "map_of (simple_merge_product merged p) b =
     (if b = s_barcode p
      then Some (case map_of merged b of
                   None \<Rightarrow> \<lparr>sm_barcode = b, sm_name = s_name p, sm_category = s_category p,
                             sm_prices = [\<lparr>e_chain = s_chain p, e_chainName = s_chainName p, e_price = s_price p\<rparr>]\<rparr>
                 | Some m \<Rightarrow>
                     if list_ex (\<lambda>pr. e_chain pr = s_chain p) (sm_prices m) then m
                     else m\<lparr>sm_prices := sm_prices m @
                            [\<lparr>e_chain = s_chain p, e_chainName = s_chainName p, e_price = s_price p\<rparr>]\<rparr>)
      else map_of merged b)"
  by (auto simp: simple_merge_product_def Let_def update_conv' split: option.splits)

lemma keys_simple_merge_product:
  "distinct (map fst merged) \<Longrightarrow> distinct (map fst (simple_merge_product merged p))"
  by (auto simp: simple_merge_product_def Let_def distinct_update split: option.splits)

lemma simple_merge_all_snoc:
  "simple_merge_all (ps @ [p]) = simple_merge_product (simple_merge_all ps) p"
  by (simp add: simple_merge_all_def)

lemma simple_merge_all_keys: "distinct (map fst (simple_merge_all ps))"
  by (induction ps rule: rev_induct)
    (simp_all add: simple_merge_all_snoc keys_simple_merge_product, simp add: simple_merge_all_def)

lemma simple_merge_all_none:
  "map_of (simple_merge_all ps) b = None \<Longrightarrow> List.find (\<lambda>p. s_barcode p = b) ps = None"
proof (induction ps rule: rev_induct)
  case Nil
  then show ?case by simp
next
  case (snoc p ps)
  then show ?case
    by (auto simp: simple_merge_all_snoc map_of_simple_merge_product find_snoc split: if_splits)
qed

lemma simple_merge_all_entry:
  "map_of (simple_merge_all ps) b = Some m \<Longrightarrow>
     sm_barcode m = b \<and> sm_prices m \<noteq> [] \<and> distinct (map e_chain (sm_prices m))
     \<and> (\<exists>p0. List.find (\<lambda>p. s_barcode p = b) ps = Some p0 \<and> sm_name m = s_name p0
              \<and> sm_category m = s_category p0)"
proof (induction ps arbitrary: m rule: rev_induct)
  case Nil
  then show ?case by (simp add: simple_merge_all_def)
next
  case (snoc p ps)
  show ?case
  proof (cases "b = s_barcode p")
    case False
    with snoc.prems have "map_of (simple_merge_all ps) b = Some m"
      by (simp add: simple_merge_all_snoc map_of_simple_merge_product)
    from snoc.IH [OF this] show ?thesis by (auto simp: find_snoc)
  next
    case True
    show ?thesis
    proof (cases "map_of (simple_merge_all ps) b")
      case None
      then have "List.find (\<lambda>p. s_barcode p = b) ps = None" by (rule simple_merge_all_none)
      with snoc.prems True None show ?thesis
        by (auto simp: simple_merge_all_snoc map_of_simple_merge_product find_snoc)
    next
      case (Some m0)
      from snoc.IH [OF Some] snoc.prems True Some show ?thesis
        by (auto simp: simple_merge_all_snoc map_of_simple_merge_product find_snoc list_ex_iff
            split: if_splits) blast
    qed
  qed
qed

lemma simple_merge_all_values:
  "m \<in> set (map snd (simple_merge_all ps)) \<Longrightarrow> map_of (simple_merge_all ps) (sm_barcode m) = Some m"
proof -
  assume "m \<in> set (map snd (simple_merge_all ps))"
  then obtain k where k: "(k, m) \<in> set (simple_merge_all ps)" by auto
  then have s: "map_of (simple_merge_all ps) k = Some m"
    using simple_merge_all_keys by simp
  from simple_merge_all_entry [OF s] have "sm_barcode m = k" by simp
  with s show ?thesis by simp
qed

section \<open>Invariants of the merge of \<open>import_kaggle\<close>\<close>

lemma map_of_kaggle_merge_product:
  "map_of (kaggle_merge_product merged p) b =
     (if b = k_barcode p
      then Some (case map_of merged b of
                   None \<Rightarrow> \<lparr>km_barcode = b, km_name = k_name p, km_manufacturer = k_manufacturer p,
                             km_category = k_category p, km_unitQty = k_unitQty p,
                             km_unitMeasure = k_unitMeasure p,
                             km_prices = [\<lparr>e_chain = k_chain p, e_chainName = k_chainName p, e_price = k_price p\<rparr>],
                             km_image = image_url b\<rparr>
                 | Some m \<Rightarrow>
                     m\<lparr>km_prices := km_prices m @
                            [\<lparr>e_chain = k_chain p, e_chainName = k_chainName p, e_price = k_price p\<rparr>]\<rparr>)
      else map_of merged b)"
  by (auto simp: kaggle_merge_product_def Let_def update_conv' split: option.splits)

lemma keys_kaggle_merge_product:
  "distinct (map fst merged) \<Longrightarrow> distinct (map fst (kaggle_merge_product merged p))"
  by (auto simp: kaggle_merge_product_def Let_def distinct_update split: option.splits)

lemma kaggle_fold_snoc: "kaggle_fold (ps @ [p]) = kaggle_merge_product (kaggle_fold ps) p"
  by (simp add: kaggle_fold_def)

lemma kaggle_fold_keys: "distinct (map fst (kaggle_fold ps))"
  by (induction ps rule: rev_induct)
    (simp_all add: kaggle_fold_snoc keys_kaggle_merge_product, simp add: kaggle_fold_def)

lemma kaggle_fold_none:
  "map_of (kaggle_fold ps) b = None \<Longrightarrow> List.find (\<lambda>p. k_barcode p = b) ps = None"
proof (induction ps rule: rev_induct)
  case Nil
  then show ?case by simp
next
  case (snoc p ps)
  then show ?case
    by (auto simp: kaggle_fold_snoc map_of_kaggle_merge_product find_snoc split: if_splits)
qed

lemma kaggle_fold_entry:
  "map_of (kaggle_fold ps) b = Some m \<Longrightarrow>
     km_barcode m = b \<and> km_prices m \<noteq> [] \<and> km_image m = image_url b
     \<and> (\<exists>p0. List.find (\<lambda>p. k_barcode p = b) ps = Some p0 \<and> km_name m = k_name p0
              \<and> km_manufacturer m = k_manufacturer p0 \<and> km_category m = k_category p0
              \<and> km_unitQty m = k_unitQty p0 \<and> km_unitMeasure m = k_unitMeasure p0)"
proof (induction ps arbitrary: m rule: rev_induct)
  case Nil
  then show ?case by (simp add: kaggle_fold_def)
next
  case (snoc p ps)
  show ?case
  proof (cases "b = k_barcode p")
    case False
    with snoc.prems have "map_of (kaggle_fold ps) b = Some m"
      by (simp add: kaggle_fold_snoc map_of_kaggle_merge_product)
    from snoc.IH [OF this] show ?thesis by (auto simp: find_snoc)
  next
    case True
    show ?thesis
    proof (cases "map_of (kaggle_fold ps) b")
      case None
      then have "List.find (\<lambda>p. k_barcode p = b) ps = None" by (rule kaggle_fold_none)
      with snoc.prems True None show ?thesis
        by (auto simp: kaggle_fold_snoc map_of_kaggle_merge_product find_snoc)
    next
      case (Some m0)
      from snoc.IH [OF Some] snoc.prems True Some show ?thesis
        by (auto simp: kaggle_fold_snoc map_of_kaggle_merge_product find_snoc)
    qed
  qed
qed

lemma kaggle_merged_values:
  "m \<in> set (merge_products_by_barcode chain_products) \<Longrightarrow>
   map_of (kaggle_fold (concat (map snd chain_products))) (km_barcode m) = Some m"
proof -
  assume "m \<in> set (merge_products_by_barcode chain_products)"
  then have "m \<in> set (map snd (kaggle_fold (concat (map snd chain_products))))"
    by (simp add: merge_products_by_barcode_def kaggle_merged_dict_def)
  then obtain k where k: "(k, m) \<in> set (kaggle_fold (concat (map snd chain_products)))" by auto
  then have s: "map_of (kaggle_fold (concat (map snd chain_products))) k = Some m"
    using kaggle_fold_keys by simp
  from kaggle_fold_entry [OF s] have "km_barcode m = k" by simp
  with s show ?thesis by simp
qed

section \<open>The sample records, evaluated\<close>

lemma round2_5: "round2 (Finite 5) = Finite 5"
  by (simp add: round2_def round_half_even_def)

lemma round2_6: "round2 (Finite 6) = Finite 6"
  by (simp add: round2_def round_half_even_def)

lemma csv_price_5: "csv_price ''5.0'' = Finite 5"
  by (simp add: csv_price_def float_eval)

lemma csv_price_6: "csv_price ''6.0'' = Finite 6"
  by (simp add: csv_price_def float_eval)

lemma strip_111: "strip ''111'' = ''111''" by (simp add: strip_def is_space_def)
lemma strip_Milk: "strip ''Milk'' = ''Milk''" by (simp add: strip_def is_space_def)
lemma strip_50: "strip ''5.0'' = ''5.0''" by (simp add: strip_def is_space_def)
lemma strip_60: "strip ''6.0'' = ''6.0''" by (simp add: strip_def is_space_def)
lemma strip_Nil: "strip [] = []" by (simp add: strip_def)

lemma le0_5: "\<not> le0 (Finite 5)" by (simp add: le0_def py_le_def py_lt_def)
lemma le0_6: "\<not> le0 (Finite 6)" by (simp add: le0_def py_le_def py_lt_def)

lemma parse_milk_row_1:
  "parse_price_csv_row sample_categorize ''shufersal'' ''Shufersal'' milk_row_1 = Some (kaggle_milk (Finite 5))"
  by (simp add: parse_price_csv_row_def csv_barcode_def csv_name_def csv_price_str_def milk_row_1_def
      strip_111 strip_Milk strip_50 strip_Nil csv_price_5 le0_5 round2_5 kaggle_milk_def
      sample_categorize_def)

lemma parse_milk_row_2:
  "parse_price_csv_row sample_categorize ''shufersal'' ''Shufersal'' milk_row_2 = Some (kaggle_milk (Finite 6))"
  by (simp add: parse_price_csv_row_def csv_barcode_def csv_name_def csv_price_str_def milk_row_2_def
      strip_111 strip_Milk strip_60 strip_Nil csv_price_6 le0_6 round2_6 kaggle_milk_def
      sample_categorize_def)

lemma parse_milk_rows:
  "parse_price_csv sample_categorize ''shufersal'' ''Shufersal'' (Some [milk_row_1, milk_row_2])
     = [kaggle_milk (Finite 5), kaggle_milk (Finite 6)]"
  by (simp add: parse_price_csv_def List.map_filter_simps parse_milk_row_1 parse_milk_row_2)

lemma image_111: "image_url ''111'' = None"
  by (simp add: image_url_def)

lemma kaggle_merge_milk:
  "merge_products_by_barcode [(''shufersal'', [kaggle_milk (Finite 5), kaggle_milk (Finite 6)])]
     = [kaggle_milk_merged]"
  by (simp add: merge_products_by_barcode_def kaggle_merged_dict_def kaggle_fold_def
      kaggle_merge_product_def kaggle_milk_def kaggle_milk_merged_def image_111 Let_def)

lemma merge_milk: "merge_all [milk_a, milk_b] = [(''111'', milk_merged)]"
  by (simp add: merge_all_def merge_product_def milk_a_def milk_b_def milk_merged_def Let_def)

lemma simple_merge_milk: "simple_merge_all [simple_milk_a, simple_milk_b] = [(''111'', simple_milk_merged)]"
  by (simp add: simple_merge_all_def simple_merge_product_def simple_milk_a_def simple_milk_b_def
      simple_milk_merged_def Let_def)

section \<open>One price per chain\<close>

text \<open>The merges of \<open>fetch_all_chains\<close> and \<open>scrape_simple\<close> keep at most one price per
  chain in every merged product.\<close>

lemma merge_all_one_price_per_chain:
  "m \<in> set (map snd (merge_all all_products)) \<Longrightarrow>
     distinct (map e_chain (m_prices m))
     \<and> length (m_prices m) = card (e_chain ` set (m_prices m))"
proof -
  assume "m \<in> set (map snd (merge_all all_products))"
  then have "map_of (merge_all all_products) (m_barcode m) = Some m" by (rule merge_all_values)
  then have d: "distinct (map e_chain (m_prices m))" using merge_all_entry by blast
  then have "card (set (map e_chain (m_prices m))) = length (map e_chain (m_prices m))"
    by (rule distinct_card)
  with d show ?thesis by simp
qed

lemma simple_merge_all_one_price_per_chain:
  "m \<in> set (map snd (simple_merge_all products)) \<Longrightarrow>
     distinct (map e_chain (sm_prices m))
     \<and> length (sm_prices m) = card (e_chain ` set (sm_prices m))"
proof -
  assume "m \<in> set (map snd (simple_merge_all products))"
  then have "map_of (simple_merge_all products) (sm_barcode m) = Some m"
    by (rule simple_merge_all_values)
  then have d: "distinct (map e_chain (sm_prices m))" using simple_merge_all_entry by blast
  then have "card (set (map e_chain (sm_prices m))) = length (map e_chain (sm_prices m))"
    by (rule distinct_card)
  with d show ?thesis by simp
qed

text \<open>
  C1: every merged product has at most one price entry per chain, so the length of its price
  list is the number of its distinct chains. \<open>import_kaggle.merge_products_by_barcode\<close>
  appends every observation instead: two rows of one chain with the same item code give a
  merged product with two prices of that chain, a list of length 2 over 1 distinct chain.
\<close>

theorem kaggle_merge_repeats_chain:
  "merge_products_by_barcode
     [(''shufersal'',
       parse_price_csv sample_categorize ''shufersal'' ''Shufersal'' (Some [milk_row_1, milk_row_2]))]
     = [kaggle_milk_merged]
   \<and> map e_chain (km_prices kaggle_milk_merged) = [''shufersal'', ''shufersal'']
   \<and> length (km_prices kaggle_milk_merged) = 2
   \<and> card (set (map e_chain (km_prices kaggle_milk_merged))) = 1"
  by (simp add: parse_milk_rows kaggle_merge_milk) (simp add: kaggle_milk_merged_def)

section \<open>First seen wins\<close>



section \<open>The image address and the cheapest price\<close>

text \<open>
  C8: the image address is a function of the barcode alone. For a barcode of at least 12
  characters it is the fixed address text with four slices of the barcode between its
  slashes: characters 1 to 3, characters 4 to 6, characters 7 to 9 and the rest, which
  together are the barcode (\<open>7290000066318\<close> gives 729/000/006/6318), so that two such
  barcodes with the same address are equal; for a shorter barcode there is no image address.
  The three places that set it (\<open>fetch_all_chains.update_mongodb\<close>,
  \<open>scrape_simple.update_mongodb\<close>, \<open>import_kaggle.merge_products_by_barcode\<close>) use this
  function of the product's barcode.
\<close>

theorem image_url_from_barcode:
  "(12 \<le> length barcode \<longrightarrow>
      image_url barcode =
        Some (''https://images.openfoodfacts.org/images/products/'' @ take 3 barcode @ ''/''
              @ take 3 (drop 3 barcode) @ ''/'' @ take 3 (drop 6 barcode) @ ''/'' @ drop 9 barcode
              @ ''/front_he.400.jpg'')
      \<and> take 3 barcode = [barcode ! 0, barcode ! 1, barcode ! 2]
      \<and> take 3 (drop 3 barcode) = [barcode ! 3, barcode ! 4, barcode ! 5]
      \<and> take 3 (drop 6 barcode) = [barcode ! 6, barcode ! 7, barcode ! 8]
      \<and> take 3 barcode @ take 3 (drop 3 barcode) @ take 3 (drop 6 barcode) @ drop 9 barcode = barcode)
   \<and> (12 \<le> length barcode \<and> 12 \<le> length other \<and> image_url barcode = image_url other \<longrightarrow>
        barcode = other)
   \<and> (length barcode < 12 \<longrightarrow> image_url barcode = None)
   \<and> d_image (document_of now m) = image_url (m_barcode m)
   \<and> sd_image (simple_document_of now s) = image_url (sm_barcode s)
   \<and> (\<forall>x \<in> set (merge_products_by_barcode chain_products). km_image x = image_url (km_barcode x))"
proof (intro conjI impI ballI)
  assume "12 \<le> length barcode"
  then show "image_url barcode =
        Some (''https://images.openfoodfacts.org/images/products/'' @ take 3 barcode @ ''/''
              @ take 3 (drop 3 barcode) @ ''/'' @ take 3 (drop 6 barcode) @ ''/'' @ drop 9 barcode
              @ ''/front_he.400.jpg'')"
    by (rule image_url_some)
next
  assume "12 \<le> length barcode"
  then show "take 3 barcode = [barcode ! 0, barcode ! 1, barcode ! 2]"
    using three_chars [of 0 barcode] by (simp add: numeral_2_eq_2)
next
  assume "12 \<le> length barcode"
  then show "take 3 (drop 3 barcode) = [barcode ! 3, barcode ! 4, barcode ! 5]"
    using three_chars [of 3 barcode] by simp
next
  assume "12 \<le> length barcode"
  then show "take 3 (drop 6 barcode) = [barcode ! 6, barcode ! 7, barcode ! 8]"
    using three_chars [of 6 barcode] by simp
next
  show "take 3 barcode @ take 3 (drop 3 barcode) @ take 3 (drop 6 barcode) @ drop 9 barcode = barcode"
    by (rule segments_append)
next
  assume "12 \<le> length barcode \<and> 12 \<le> length other \<and> image_url barcode = image_url other"
  then show "barcode = other" by (intro image_url_inj) simp_all
next
  assume "length barcode < 12" then show "image_url barcode = None" by (simp add: image_url_def)
next
  show "d_image (document_of now m) = image_url (m_barcode m)" by (simp add: document_of_def)
next
  show "sd_image (simple_document_of now s) = image_url (sm_barcode s)"
    by (simp add: simple_document_of_def)
next
  fix x assume "x \<in> set (merge_products_by_barcode chain_products)"
  then have "map_of (kaggle_fold (concat (map snd chain_products))) (km_barcode x) = Some x"
    by (rule kaggle_merged_values)
  from kaggle_fold_entry [OF this] show "km_image x = image_url (km_barcode x)" by simp
qed

theorem image_url_from_barcode_witness:
  "12 \<le> length ''7290000066318''
   \<and> image_url ''7290000066318''
       = Some ''https://images.openfoodfacts.org/images/products/729/000/006/6318/front_he.400.jpg''
   \<and> 12 \<le> length ''123456789012''
   \<and> image_url ''123456789012''
       = Some ''https://images.openfoodfacts.org/images/products/123/456/789/012/front_he.400.jpg''
   \<and> image_url ''7290000066318'' \<noteq> image_url ''123456789012''
   \<and> length ''72900000663'' < 12
   \<and> image_url ''72900000663'' = None
   \<and> kaggle_milk_merged \<in>
       set (merge_products_by_barcode [(''shufersal'', [kaggle_milk (Finite 5), kaggle_milk (Finite 6)])])
   \<and> km_image kaggle_milk_merged = image_url (km_barcode kaggle_milk_merged)"
proof -
  have l: "12 \<le> length ''7290000066318''" by simp
  have l2: "12 \<le> length ''123456789012''" by simp
  have s: "length ''72900000663'' < 12" by simp
  have k: "kaggle_milk_merged \<in>
       set (merge_products_by_barcode [(''shufersal'', [kaggle_milk (Finite 5), kaggle_milk (Finite 6)])])"
    by (simp add: kaggle_merge_milk)
  have ne: "''7290000066318'' \<noteq> ''123456789012''" by simp
  from l image_url_from_barcode [of "''7290000066318''"]
  have a: "image_url ''7290000066318''
       = Some ''https://images.openfoodfacts.org/images/products/729/000/006/6318/front_he.400.jpg''"
    by simp
  from l2 image_url_from_barcode [of "''123456789012''"]
  have a2: "image_url ''123456789012''
       = Some ''https://images.openfoodfacts.org/images/products/123/456/789/012/front_he.400.jpg''"
    by simp
  from l l2 ne image_url_from_barcode [of "''7290000066318''" "''123456789012''"]
  have d: "image_url ''7290000066318'' \<noteq> image_url ''123456789012''" by blast
  from s image_url_from_barcode [of "''72900000663''"]
  have b: "image_url ''72900000663'' = None" by blast
  from k image_url_from_barcode [of _ _ _ _ _ "[(''shufersal'', [kaggle_milk (Finite 5), kaggle_milk (Finite 6)])]"]
  have c: "km_image kaggle_milk_merged = image_url (km_barcode kaggle_milk_merged)" by blast
  show ?thesis using l l2 s k a a2 d b c by simp
qed

text \<open>
  C9: in the persistence projection of \<open>fetch_all_chains\<close> and of \<open>scrape_simple\<close>, the
  cheapest price and the cheapest chain are the price and the chain display name of an entry
  of the product's price list whose price is at most every price of the list; for an empty
  price list they are 0 and the empty text. Prices are numbers here: a record is only
  accepted with a price greater than 0, which not-a-number is not.
\<close>

theorem cheapest_projection:
  "(m_prices m = [] \<longrightarrow>
      d_cheapestPrice (document_of now m) = Finite 0 \<and> d_cheapestChain (document_of now m) = [])
   \<and> (m_prices m \<noteq> [] \<and> (\<forall>p \<in> set (m_prices m). e_price p \<noteq> NaN) \<longrightarrow>
        (\<exists>e \<in> set (m_prices m).
           d_cheapestPrice (document_of now m) = e_price e
           \<and> d_cheapestChain (document_of now m) = e_chainName e
           \<and> (\<forall>p \<in> set (m_prices m). py_le (e_price e) (e_price p))))
   \<and> (sm_prices s = [] \<longrightarrow>
        sd_cheapestPrice (simple_document_of now s) = Finite 0
        \<and> sd_cheapestChain (simple_document_of now s) = [])
   \<and> (sm_prices s \<noteq> [] \<and> (\<forall>p \<in> set (sm_prices s). e_price p \<noteq> NaN) \<longrightarrow>
        (\<exists>e \<in> set (sm_prices s).
           sd_cheapestPrice (simple_document_of now s) = e_price e
           \<and> sd_cheapestChain (simple_document_of now s) = e_chainName e
           \<and> (\<forall>p \<in> set (sm_prices s). py_le (e_price e) (e_price p))))"
proof (intro conjI impI)
  assume "m_prices m = []"
  then show "d_cheapestPrice (document_of now m) = Finite 0" by (simp add: document_of_def cheapest_def)
next
  assume "m_prices m = []"
  then show "d_cheapestChain (document_of now m) = []" by (simp add: document_of_def cheapest_def)
next
  assume a: "m_prices m \<noteq> [] \<and> (\<forall>p \<in> set (m_prices m). e_price p \<noteq> NaN)"
  then obtain e where "e \<in> set (m_prices m)" "cheapest (m_prices m) = (e_price e, e_chainName e)"
    "\<forall>p \<in> set (m_prices m). py_le (e_price e) (e_price p)"
    using cheapest_minimum [of "m_prices m"] by blast
  then show "\<exists>e \<in> set (m_prices m).
           d_cheapestPrice (document_of now m) = e_price e
           \<and> d_cheapestChain (document_of now m) = e_chainName e
           \<and> (\<forall>p \<in> set (m_prices m). py_le (e_price e) (e_price p))"
    by (intro bexI [of _ e]) (simp_all add: document_of_def)
next
  assume "sm_prices s = []"
  then show "sd_cheapestPrice (simple_document_of now s) = Finite 0"
    by (simp add: simple_document_of_def cheapest_def)
next
  assume "sm_prices s = []"
  then show "sd_cheapestChain (simple_document_of now s) = []"
    by (simp add: simple_document_of_def cheapest_def)
next
  assume a: "sm_prices s \<noteq> [] \<and> (\<forall>p \<in> set (sm_prices s). e_price p \<noteq> NaN)"
  then obtain e where "e \<in> set (sm_prices s)" "cheapest (sm_prices s) = (e_price e, e_chainName e)"
    "\<forall>p \<in> set (sm_prices s). py_le (e_price e) (e_price p)"
    using cheapest_minimum [of "sm_prices s"] by blast
  then show "\<exists>e \<in> set (sm_prices s).
           sd_cheapestPrice (simple_document_of now s) = e_price e
           \<and> sd_cheapestChain (simple_document_of now s) = e_chainName e
           \<and> (\<forall>p \<in> set (sm_prices s). py_le (e_price e) (e_price p))"
    by (intro bexI [of _ e]) (simp_all add: simple_document_of_def)
qed

theorem cheapest_projection_witness:
  "m_prices milk_merged \<noteq> []
   \<and> NaN \<notin> set (map e_price (m_prices milk_merged))
   \<and> d_cheapestPrice (document_of 0 milk_merged) = Finite (9 / 2)
   \<and> d_cheapestChain (document_of 0 milk_merged) = ''Chain B''
   \<and> m_prices (milk_merged\<lparr>m_prices := []\<rparr>) = []
   \<and> d_cheapestPrice (document_of 0 (milk_merged\<lparr>m_prices := []\<rparr>)) = Finite 0
   \<and> d_cheapestChain (document_of 0 (milk_merged\<lparr>m_prices := []\<rparr>)) = []
   \<and> sm_prices simple_milk_merged \<noteq> []
   \<and> NaN \<notin> set (map e_price (sm_prices simple_milk_merged))
   \<and> sd_cheapestPrice (simple_document_of 0 simple_milk_merged) = Finite (9 / 2)
   \<and> sd_cheapestChain (simple_document_of 0 simple_milk_merged) = ''Chain B''
   \<and> sm_prices (simple_milk_merged\<lparr>sm_prices := []\<rparr>) = []
   \<and> sd_cheapestPrice (simple_document_of 0 (simple_milk_merged\<lparr>sm_prices := []\<rparr>)) = Finite 0
   \<and> sd_cheapestChain (simple_document_of 0 (simple_milk_merged\<lparr>sm_prices := []\<rparr>)) = []"
proof -
  have p: "m_prices milk_merged =
             [\<lparr>e_chain = ''A'', e_chainName = ''Chain A'', e_price = Finite 5\<rparr>,
              \<lparr>e_chain = ''B'', e_chainName = ''Chain B'', e_price = Finite (9 / 2)\<rparr>]"
    by (simp add: milk_merged_def)
  have q: "sm_prices simple_milk_merged =
             [\<lparr>e_chain = ''A'', e_chainName = ''Chain A'', e_price = Finite 5\<rparr>,
              \<lparr>e_chain = ''B'', e_chainName = ''Chain B'', e_price = Finite (9 / 2)\<rparr>]"
    by (simp add: simple_milk_merged_def)
  have n: "\<not> py_le (Finite 5) (Finite (9 / 2))"
    by (simp add: py_le_def py_lt_def)
  note t1 = cheapest_projection [of milk_merged 0 simple_milk_merged]
  note t2 = cheapest_projection [of "milk_merged\<lparr>m_prices := []\<rparr>" 0 "simple_milk_merged\<lparr>sm_prices := []\<rparr>"]
  have a: "d_cheapestPrice (document_of 0 milk_merged) = Finite (9 / 2)
           \<and> d_cheapestChain (document_of 0 milk_merged) = ''Chain B''"
    using t1 n unfolding p by auto
  have b: "sd_cheapestPrice (simple_document_of 0 simple_milk_merged) = Finite (9 / 2)
           \<and> sd_cheapestChain (simple_document_of 0 simple_milk_merged) = ''Chain B''"
    using t1 n unfolding q by auto
  have c: "d_cheapestPrice (document_of 0 (milk_merged\<lparr>m_prices := []\<rparr>)) = Finite 0
           \<and> d_cheapestChain (document_of 0 (milk_merged\<lparr>m_prices := []\<rparr>)) = []
           \<and> sd_cheapestPrice (simple_document_of 0 (simple_milk_merged\<lparr>sm_prices := []\<rparr>)) = Finite 0
           \<and> sd_cheapestChain (simple_document_of 0 (simple_milk_merged\<lparr>sm_prices := []\<rparr>)) = []"
    using t2 by simp
  show ?thesis using a b c by (simp add: p q)
qed

text \<open>
  C10: every merged product of the three merges has a non-empty price list, so the
  projection's default for an empty list is never taken on the output of a merge: the
  cheapest price and chain are those of an entry of the list.
\<close>

theorem merged_prices_nonempty:
  "(\<forall>m \<in> set (map snd (merge_all all_products)).
      m_prices m \<noteq> []
      \<and> (\<exists>e \<in> set (m_prices m). d_cheapestPrice (document_of now m) = e_price e
                                  \<and> d_cheapestChain (document_of now m) = e_chainName e))
   \<and> (\<forall>m \<in> set (map snd (simple_merge_all products)).
        sm_prices m \<noteq> []
        \<and> (\<exists>e \<in> set (sm_prices m). sd_cheapestPrice (simple_document_of now m) = e_price e
                                     \<and> sd_cheapestChain (simple_document_of now m) = e_chainName e))
   \<and> (\<forall>m \<in> set (merge_products_by_barcode chain_products). km_prices m \<noteq> [])"
proof (intro conjI ballI)
  fix m assume "m \<in> set (map snd (merge_all all_products))"
  then have "map_of (merge_all all_products) (m_barcode m) = Some m" by (rule merge_all_values)
  from merge_all_entry [OF this] show ne: "m_prices m \<noteq> []" by simp
  from cheapest_nonempty [OF ne]
  show "\<exists>e \<in> set (m_prices m). d_cheapestPrice (document_of now m) = e_price e
                                  \<and> d_cheapestChain (document_of now m) = e_chainName e"
    by (auto simp: document_of_def)
next
  fix m assume "m \<in> set (map snd (simple_merge_all products))"
  then have "map_of (simple_merge_all products) (sm_barcode m) = Some m"
    by (rule simple_merge_all_values)
  from simple_merge_all_entry [OF this] show ne: "sm_prices m \<noteq> []" by simp
  from cheapest_nonempty [OF ne]
  show "\<exists>e \<in> set (sm_prices m). sd_cheapestPrice (simple_document_of now m) = e_price e
                                     \<and> sd_cheapestChain (simple_document_of now m) = e_chainName e"
    by (auto simp: simple_document_of_def)
next
  fix m assume "m \<in> set (merge_products_by_barcode chain_products)"
  then have "map_of (kaggle_fold (concat (map snd chain_products))) (km_barcode m) = Some m"
    by (rule kaggle_merged_values)
  from kaggle_fold_entry [OF this] show "km_prices m \<noteq> []" by simp
qed

theorem merged_prices_nonempty_witness:
  "milk_merged \<in> set (map snd (merge_all [milk_a, milk_b]))
   \<and> m_prices milk_merged \<noteq> []
   \<and> d_cheapestPrice (document_of 0 milk_merged) \<in> set (map e_price (m_prices milk_merged))
   \<and> simple_milk_merged \<in> set (map snd (simple_merge_all [simple_milk_a, simple_milk_b]))
   \<and> sm_prices simple_milk_merged \<noteq> []
   \<and> sd_cheapestPrice (simple_document_of 0 simple_milk_merged)
       \<in> set (map e_price (sm_prices simple_milk_merged))
   \<and> kaggle_milk_merged \<in>
       set (merge_products_by_barcode [(''shufersal'', [kaggle_milk (Finite 5), kaggle_milk (Finite 6)])])
   \<and> km_prices kaggle_milk_merged \<noteq> []"
proof -
  have a: "milk_merged \<in> set (map snd (merge_all [milk_a, milk_b]))"
    by (simp add: merge_milk)
  have b: "simple_milk_merged \<in> set (map snd (simple_merge_all [simple_milk_a, simple_milk_b]))"
    by (simp add: simple_merge_milk)
  have c: "kaggle_milk_merged \<in>
       set (merge_products_by_barcode [(''shufersal'', [kaggle_milk (Finite 5), kaggle_milk (Finite 6)])])"
    by (simp add: kaggle_merge_milk)
  note t = merged_prices_nonempty [of "[milk_a, milk_b]" 0 "[simple_milk_a, simple_milk_b]"
      "[(''shufersal'', [kaggle_milk (Finite 5), kaggle_milk (Finite 6)])]"]
  from t a have a': "m_prices milk_merged \<noteq> []
     \<and> d_cheapestPrice (document_of 0 milk_merged) \<in> set (map e_price (m_prices milk_merged))"
    by fastforce
  from t b have b': "sm_prices simple_milk_merged \<noteq> []
     \<and> sd_cheapestPrice (simple_document_of 0 simple_milk_merged)
         \<in> set (map e_price (sm_prices simple_milk_merged))"
    by fastforce
  from t c have c': "km_prices kaggle_milk_merged \<noteq> []" by blast
  show ?thesis using a b c a' b' c' by simp
qed

section \<open>Record normalization\<close>

text \<open>
  What the three normalizers accept. \<open>fetch_all_chains.parse_xml_file\<close> and
  \<open>scrape_simple.parse_xml\<close> accept a record exactly when the barcode and the name are
  non-empty and the price parses to a value greater than 0;
  \<open>import_kaggle.parse_price_csv\<close> accepts it exactly when the barcode and the name are
  non-empty and the price is not \<open>\<le> 0\<close>.
\<close>

lemma gt0_truthy: "gt0 v \<Longrightarrow> truthy v"
  by (cases v) (auto simp: gt0_def truthy_def py_lt_def)

lemma gt0_not_nan: "gt0 v \<Longrightarrow> v \<noteq> NaN"
  by (cases v) (auto simp: gt0_def py_lt_def)

lemma round2_not_nan: "v \<noteq> NaN \<Longrightarrow> round2 v \<noteq> NaN"
  by (cases v) (auto simp: round2_def)

lemma price_ok_iff: "price_ok price \<longleftrightarrow> (\<exists>v. price = Some v \<and> gt0 v)"
  by (cases price) (auto simp: price_ok_def gt0_truthy)

lemma parse_xml_file_item_accepts:
  "(\<exists>p. parse_xml_file_item categorize chain_id chain_name item = Some p)
     \<longleftrightarrow> nonempty (item_barcode item) \<and> nonempty (item_name item)
          \<and> (\<exists>v. item_price item = Some v \<and> gt0 v)"
  by (simp add: parse_xml_file_item_def Let_def price_ok_iff)

lemma parse_xml_item_accepts:
  "(\<exists>p. parse_xml_item categorize chain_id chain_name item = Some p)
     \<longleftrightarrow> nonempty (simple_barcode item) \<and> nonempty (simple_name item)
          \<and> (\<exists>v. item_price item = Some v \<and> gt0 v)"
  by (simp add: parse_xml_item_def Let_def price_ok_iff)

lemma parse_price_csv_row_accepts:
  "(\<exists>p. parse_price_csv_row categorize_product chain_id chain_name row = Some p)
     \<longleftrightarrow> csv_barcode row \<noteq> [] \<and> csv_name row \<noteq> [] \<and> \<not> le0 (csv_price (csv_price_str row))"
  by (simp add: parse_price_csv_row_def Let_def)

lemma accepted_price_is_number:
  "parse_xml_file_item categorize chain_id chain_name item = Some p \<Longrightarrow>
     p_barcode p \<noteq> [] \<and> p_name p \<noteq> [] \<and> p_price p \<noteq> NaN"
  by (auto simp: parse_xml_file_item_def Let_def price_ok_iff nonempty_def gt0_not_nan round2_not_nan
      split: if_splits option.splits)

lemma simple_accepted_price_is_number:
  "parse_xml_item categorize chain_id chain_name item = Some p \<Longrightarrow>
     s_barcode p \<noteq> [] \<and> s_name p \<noteq> [] \<and> s_price p \<noteq> NaN"
  by (auto simp: parse_xml_item_def Let_def price_ok_iff nonempty_def gt0_not_nan round2_not_nan
      split: if_splits option.splits)

lemma strip_nan: "strip ''nan'' = ''nan''" by (simp add: strip_def is_space_def)
lemma strip_abc: "strip ''abc'' = ''abc''" by (simp add: strip_def is_space_def)
lemma strip_comma: "strip ''12,50'' = ''12,50''" by (simp add: strip_def is_space_def)
lemma strip_222: "strip ''222'' = ''222''" by (simp add: strip_def is_space_def)
lemma strip_Bread: "strip ''Bread'' = ''Bread''" by (simp add: strip_def is_space_def)

lemma float_nan: "py_float ''nan'' = Inr NaN"
  by (simp add: float_eval)

lemma float_abc: "py_float ''abc'' = Inl ValueError"
  by (simp add: float_eval)

lemma float_comma: "py_float ''12,50'' = Inl ValueError"
  by (simp add: float_eval)

lemma float_comma_replaced: "py_float (replace_comma ''12,50'') = Inr (Finite (25 / 2))"
  by (simp add: float_eval)

lemma float_abc_replaced: "py_float (replace_comma ''abc'') = Inl ValueError"
  by (simp add: float_eval)

lemma float_nan_replaced: "py_float (replace_comma ''nan'') = Inr NaN"
  by (simp add: float_eval)

lemma float_50: "py_float ''5.0'' = Inr (Finite 5)"
  by (simp add: float_eval)

lemma round2_25_2: "round2 (Finite (25 / 2)) = Finite (25 / 2)"
  by (simp add: round2_def round_half_even_def)

lemma item_price_comma: "item_price comma_item = Some (Finite (25 / 2))"
  by (simp add: item_price_def comma_item_def strip_comma float_comma_replaced)

lemma item_price_abc: "item_price abc_item = None"
  by (simp add: item_price_def abc_item_def strip_abc float_abc_replaced)

lemma item_price_nan: "item_price nan_item = Some NaN"
  by (simp add: item_price_def nan_item_def strip_nan float_nan_replaced)

lemma gt0_25_2: "gt0 (Finite (25 / 2))" by (simp add: gt0_def py_lt_def)
lemma truthy_25_2: "truthy (Finite (25 / 2))" by (simp add: truthy_def)
lemma gt0_nan: "\<not> gt0 NaN" by (simp add: gt0_def py_lt_def)
lemma le0_nan: "\<not> le0 NaN" by (simp add: le0_def py_le_def)
lemma gt0_5: "gt0 (Finite 5)" by (simp add: gt0_def py_lt_def)
lemma round2_nan: "round2 NaN = NaN" by (simp add: round2_def)

lemma parse_comma_item:
  "parse_xml_file_item sample_categorize ''shufersal'' ''Shufersal'' comma_item = Some (milk_from (Finite (25 / 2)))"
  by (simp add: parse_xml_file_item_def item_price_comma price_ok_def gt0_25_2 truthy_25_2 round2_25_2
      milk_from_def sample_categorize_def)
    (simp add: item_barcode_def item_name_def item_manufacturer_def nonempty_def comma_item_def
      strip_111 strip_Milk round2_25_2 sample_categorize_def)

lemma parse_abc_item:
  "parse_xml_file_item sample_categorize ''shufersal'' ''Shufersal'' abc_item = None"
  by (simp add: parse_xml_file_item_def item_price_abc price_ok_def)

lemma parse_nan_item:
  "parse_xml_file_item sample_categorize ''shufersal'' ''Shufersal'' nan_item = None"
  by (simp add: parse_xml_file_item_def item_price_nan price_ok_def gt0_nan)

lemma scraped_comma_item: "scraped_item ''shufersal'' ''Shufersal'' comma_item = Inl ValueError"
  by (simp add: scraped_item_def comma_item_def strip_comma float_comma)

lemma scraped_abc_item: "scraped_item ''shufersal'' ''Shufersal'' abc_item = Inl ValueError"
  by (simp add: scraped_item_def abc_item_def strip_abc float_abc)

lemma scraped_plain_item: "scraped_item ''shufersal'' ''Shufersal'' plain_item = Inr (Some scraped_bread)"
  by (simp add: scraped_item_def scraped_barcode_def scraped_name_def plain_item_def strip_50 float_50
      strip_222 strip_Bread gt0_5 scraped_bread_def)

lemma parse_nan_row:
  "parse_price_csv_row sample_categorize ''shufersal'' ''Shufersal'' nan_row = Some (kaggle_milk NaN)"
  by (simp add: parse_price_csv_row_def csv_barcode_def csv_name_def csv_price_str_def nan_row_def
      strip_111 strip_Milk strip_nan strip_Nil csv_price_def float_nan_replaced le0_nan round2_nan
      kaggle_milk_def sample_categorize_def)

text \<open>
  C2: the price text has its comma replaced by a dot and is then parsed as a decimal, so
  \<open>12,50\<close> is 12.5 and \<open>abc\<close> gives no price and a rejected record; normalizing a
  record never raises. \<open>fetch_all_chains.parse_xml_file\<close> does this. In
  \<open>scrape_prices.parse_xml_files_directly\<close> the text goes to \<open>float\<close> as it is and
  outside any \<open>try\<close> of its own: \<open>12,50\<close> and \<open>abc\<close> raise ValueError, which leaves
  the loop over the file's items, so the records after it in the file are lost as well.
\<close>

theorem comma_price_raises_in_scrape_prices:
  "item_price comma_item = Some (Finite (25 / 2))
   \<and> parse_xml_file_item sample_categorize ''shufersal'' ''Shufersal'' comma_item
       = Some (milk_from (Finite (25 / 2)))
   \<and> item_price abc_item = None
   \<and> parse_xml_file_item sample_categorize ''shufersal'' ''Shufersal'' abc_item = None
   \<and> scraped_item ''shufersal'' ''Shufersal'' comma_item = Inl ValueError
   \<and> scraped_item ''shufersal'' ''Shufersal'' abc_item = Inl ValueError
   \<and> parse_xml_files_directly ''shufersal'' ''Shufersal'' 5000 [Some [plain_item]] = [scraped_bread]
   \<and> parse_xml_files_directly ''shufersal'' ''Shufersal'' 5000 [Some [comma_item, plain_item]] = []
   \<and> parse_xml_files_directly ''shufersal'' ''Shufersal'' 5000 [Some [abc_item, plain_item]] = []"
  by (simp add: item_price_comma parse_comma_item item_price_abc parse_abc_item scraped_comma_item
      scraped_abc_item scraped_plain_item parse_xml_files_directly_def)

text \<open>
  C4: a record is accepted exactly when its barcode and name are non-empty and its price
  parses to a value greater than 0. \<open>import_kaggle.parse_price_csv\<close> tests
  \<open>price <= 0\<close> to reject, which is false for not-a-number: the row with the price text
  \<open>nan\<close> is accepted, with a price that is not greater than 0. The XML normalizers
  (\<open>price and price > 0\<close>) reject the same record.
\<close>

theorem nan_price_accepted_by_import_kaggle:
  "parse_price_csv_row sample_categorize ''shufersal'' ''Shufersal'' nan_row = Some (kaggle_milk NaN)
   \<and> csv_barcode nan_row = ''111'' \<and> csv_name nan_row = ''Milk''
   \<and> csv_price (csv_price_str nan_row) = NaN
   \<and> \<not> gt0 NaN
   \<and> k_price (kaggle_milk NaN) = NaN
   \<and> parse_xml_file_item sample_categorize ''shufersal'' ''Shufersal'' nan_item = None
   \<and> parse_xml_item sample_categorize ''shufersal'' ''Shufersal'' nan_item = None"
  by (simp add: parse_nan_row gt0_nan parse_nan_item)
    (simp add: csv_barcode_def csv_name_def csv_price_str_def nan_row_def strip_111 strip_Milk
      strip_nan csv_price_def float_nan_replaced kaggle_milk_def parse_xml_item_def item_price_nan
      price_ok_def gt0_nan)

section \<open>A batch in which no chain yields a product\<close>

lemma set_update_cases:
  "x \<in> set (AList.update k v al) \<Longrightarrow> x = (k, v) \<or> x \<in> set al"
  by (induction al) (auto split: if_splits)

lemma summary_zero:
  "\<forall>c \<in> set cs. fetch_chain c = [] \<Longrightarrow> \<forall>x \<in> set acc. snd x = 0 \<Longrightarrow>
   \<forall>x \<in> set (foldl (\<lambda>summary chain_id. AList.update chain_id (length (fetch_chain chain_id)) summary)
                  acc cs). snd x = 0"
proof (induction cs arbitrary: acc)
  case Nil
  then show ?case by simp
next
  case (Cons c cs)
  have "\<forall>x \<in> set (AList.update c (length (fetch_chain c)) acc). snd x = 0"
    using Cons.prems by (auto dest!: set_update_cases)
  moreover have "\<forall>c \<in> set cs. fetch_chain c = []" using Cons.prems by simp
  ultimately show ?case using Cons.IH by simp
qed

lemma summary_keys:
  "fst ` set (foldl (\<lambda>summary chain_id. AList.update chain_id (length (fetch_chain chain_id)) summary)
                acc cs) = fst ` set acc \<union> set cs"
  by (induction cs arbitrary: acc) (auto simp: dom_update)

lemma concat_nothing: "\<forall>c \<in> set cs. fetch_chain c = [] \<Longrightarrow> concat (map fetch_chain cs) = []"
  by (induction cs) auto

lemma main_success_constant: "main fetch_chain now args = Printed r \<Longrightarrow> r_success r"
  by (auto simp: main_def Let_def split: if_splits)

lemma main_total_failure:
  assumes "''--list'' \<notin> set args" and "''--update-db'' \<notin> set args"
    and "selected_chains args \<noteq> []"
    and "\<forall>c \<in> set (selected_chains args). fetch_chain c = []"
  shows "case main fetch_chain now args of
           Printed r \<Rightarrow> r_success r \<and> r_products r = [] \<and> r_totalProducts r = 0
                        \<and> (\<forall>x \<in> set (r_chainsSummary r). snd x = 0)
                        \<and> fst ` set (r_chainsSummary r) = set (selected_chains args)
         | _ \<Rightarrow> False"
proof -
  have c: "concat (map fetch_chain (selected_chains args)) = []"
    using assms(4) by (rule concat_nothing)
  have z: "\<forall>x \<in> set (foldl (\<lambda>summary chain_id. AList.update chain_id (length (fetch_chain chain_id)) summary)
                  [] (selected_chains args)). snd x = 0"
    using assms(4) by (rule summary_zero) simp
  show ?thesis
    using assms(1-3) z by (simp add: main_def Let_def c merge_all_def summary_keys)
qed

lemma scrape_chain_failed:
  "\<not> c_success (scrape_chain hebrew lib now chain limit) \<Longrightarrow>
     c_products (scrape_chain hebrew lib now chain limit) = []
     \<and> c_products_count (scrape_chain hebrew lib now chain limit) = None"
  by (auto simp: scrape_chain_def Let_def split: library.splits if_splits)

lemma scrape_chain_count:
  "c_products (scrape_chain hebrew lib now chain limit) = [] \<Longrightarrow>
     (case c_products_count (scrape_chain hebrew lib now chain limit) of None \<Rightarrow> 0 | Some n \<Rightarrow> n) = 0"
  by (auto simp: scrape_chain_def Let_def split: library.splits if_splits)

lemma fold_success:
  "rs_success (foldl (scrape_step hebrew lib now limit) r cs)
     = (rs_success r \<and> (\<forall>c \<in> set cs. c_success (scrape_chain hebrew lib now c limit)))"
  by (induction cs arbitrary: r) (auto simp: scrape_step_def Let_def)

lemma fold_chains:
  "x \<in> set (rs_chains (foldl (scrape_step hebrew lib now limit) r cs)) \<Longrightarrow>
     x \<in> set (rs_chains r) \<or> (fst x \<in> set cs \<and> snd x = scrape_chain hebrew lib now (fst x) limit)"
proof (induction cs arbitrary: r)
  case Nil
  then show ?case by simp
next
  case (Cons c cs)
  from Cons.IH [OF Cons.prems [simplified]]
  show ?case
    by (auto simp: scrape_step_def Let_def dest!: set_update_cases split: if_splits)
qed

lemma fold_keys:
  "fst ` set (rs_chains (foldl (scrape_step hebrew lib now limit) r cs)) = fst ` set (rs_chains r) \<union> set cs"
  by (induction cs arbitrary: r) (auto simp: scrape_step_def Let_def dom_update)

lemma scrape_multiple_success:
  "rs_success (scrape_multiple_chains hebrew lib now requested limit)
     = (\<forall>c \<in> set (case requested of None \<Rightarrow> DEFAULT_CHAINS | Some cs \<Rightarrow> cs).
          c_success (scrape_chain hebrew lib now c limit))"
  by (simp add: scrape_multiple_chains_def Let_def fold_success)

lemma scrape_multiple_chains_entries:
  "x \<in> set (rs_chains (scrape_multiple_chains hebrew lib now requested limit)) \<Longrightarrow>
     fst x \<in> set (case requested of None \<Rightarrow> DEFAULT_CHAINS | Some cs \<Rightarrow> cs)
     \<and> snd x = scrape_chain hebrew lib now (fst x) limit"
proof -
  assume "x \<in> set (rs_chains (scrape_multiple_chains hebrew lib now requested limit))"
  then have "x \<in> set (rs_chains (foldl (scrape_step hebrew lib now limit)
               \<lparr>rs_success = True, rs_scraped_at = now, rs_chains = [], rs_total_products = None\<rparr>
               (case requested of None \<Rightarrow> DEFAULT_CHAINS | Some cs \<Rightarrow> cs)))"
    by (simp add: scrape_multiple_chains_def Let_def)
  from fold_chains [OF this] show ?thesis by simp
qed

lemma scrape_multiple_total:
  assumes "\<forall>c \<in> set (case requested of None \<Rightarrow> DEFAULT_CHAINS | Some cs \<Rightarrow> cs).
             c_products (scrape_chain hebrew lib now c limit) = []"
  shows "rs_total_products (scrape_multiple_chains hebrew lib now requested limit) = Some 0"
proof -
  let ?res = "foldl (scrape_step hebrew lib now limit)
               \<lparr>rs_success = True, rs_scraped_at = now, rs_chains = [], rs_total_products = None\<rparr>
               (case requested of None \<Rightarrow> DEFAULT_CHAINS | Some cs \<Rightarrow> cs)"
  have "\<forall>x \<in> set (rs_chains ?res). (case c_products_count (snd x) of None \<Rightarrow> 0 | Some n \<Rightarrow> n) = (0::nat)"
  proof
    fix x assume "x \<in> set (rs_chains ?res)"
    from fold_chains [OF this]
    have "fst x \<in> set (case requested of None \<Rightarrow> DEFAULT_CHAINS | Some cs \<Rightarrow> cs)"
      and e: "snd x = scrape_chain hebrew lib now (fst x) limit" by simp_all
    with assms have "c_products (scrape_chain hebrew lib now (fst x) limit) = []" by blast
    then show "(case c_products_count (snd x) of None \<Rightarrow> 0 | Some n \<Rightarrow> n) = (0::nat)"
      unfolding e by (rule scrape_chain_count)
  qed
  then have "sum_list (map (\<lambda>c. case c_products_count c of None \<Rightarrow> 0 | Some n \<Rightarrow> n)
                        (map snd (rs_chains ?res))) = 0"
    by (simp add: sum_list_eq_0_iff)
  then show ?thesis by (simp add: scrape_multiple_chains_def Let_def)
qed

lemma selected_shufersal: "selected_chains [''shufersal''] = [''shufersal'']"
  by (simp add: selected_chains_def CHAINS_def)

lemma main_fetch_nothing:
  "main fetch_nothing 0 [''shufersal'']
     = Printed \<lparr>r_success = True, r_totalProducts = 0, r_chainsSummary = [(''shufersal'', 0)],
                r_products = [], r_fetchedAt = 0\<rparr>"
  by (simp add: main_def selected_shufersal fetch_nothing_def merge_all_def Let_def)

lemma scrape_raises_failed:
  "\<not> c_success (scrape_chain sample_hebrew library_raises 0 ''shufersal'' 5000)
   \<and> \<not> c_success (scrape_chain sample_hebrew library_raises 0 ''victory'' 5000)"
  by (simp add: scrape_chain_def library_raises_def Let_def)

lemma scrape_multiple_raises:
  "rs_success (scrape_multiple_chains sample_hebrew library_raises 0 (Some [''shufersal'', ''victory'']) 5000)
     = False
   \<and> rs_total_products
        (scrape_multiple_chains sample_hebrew library_raises 0 (Some [''shufersal'', ''victory'']) 5000)
       = Some 0"
proof -
  have "c_products (scrape_chain sample_hebrew library_raises 0 ''shufersal'' 5000) = []
        \<and> c_products (scrape_chain sample_hebrew library_raises 0 ''victory'' 5000) = []"
    using scrape_raises_failed scrape_chain_failed by blast
  then have "rs_total_products
        (scrape_multiple_chains sample_hebrew library_raises 0 (Some [''shufersal'', ''victory'']) 5000)
       = Some 0"
    by (intro scrape_multiple_total) simp
  then show ?thesis using scrape_raises_failed by (simp add: scrape_multiple_success)
qed

text \<open>
  C3: when no chain yields any product the batch run still returns a well-formed result, with
  an empty product list and a success flag that is false, and does not raise.
  \<open>fetch_all_chains.main\<close> builds its result with the literal \<open>'success': True\<close>: with every
  fetch failing it prints a result with an empty product list, a total of 0, a count of 0 for
  the chain, and success true. The other batch runs do report the failure:
  \<open>import_kaggle.main\<close> returns success false with an empty product list when no chain
  has a product, and \<open>scrape_prices.scrape_multiple_chains\<close> returns success false when
  every chain failed.
\<close>

theorem fetch_all_chains_reports_success_on_total_failure:
  "main fetch_nothing 0 [''shufersal'']
     = Printed \<lparr>r_success = True, r_totalProducts = 0, r_chainsSummary = [(''shufersal'', 0)],
                r_products = [], r_fetchedAt = 0\<rparr>
   \<and> i_success (import_main True [] None 0) = False
   \<and> i_products (import_main True [] None 0) = []
   \<and> rs_success (scrape_multiple_chains sample_hebrew library_raises 0 (Some [''shufersal'', ''victory'']) 5000)
       = False
   \<and> rs_total_products
        (scrape_multiple_chains sample_hebrew library_raises 0 (Some [''shufersal'', ''victory'']) 5000)
       = Some 0"
  using scrape_multiple_raises by (simp add: main_fetch_nothing import_main_def)

section \<open>Field extraction\<close>

lemma first_text_find:
  "first_text item tags =
     (case List.find (has_text item) tags of None \<Rightarrow> None | Some tag \<Rightarrow> Some (text_of item tag))"
  by (induction tags) (auto simp: has_text_def text_of_def split: option.splits)

lemma get_xml_text_find:
  "get_xml_text element names =
     (case List.find (has_text element) names of None \<Rightarrow> [] | Some n \<Rightarrow> strip (text_of element n))"
  by (induction names) (auto simp: has_text_def text_of_def split: option.splits)

lemma or_get_find:
  "or_get row ks dflt =
     (case List.find (row_has row) ks of None \<Rightarrow> dflt | Some k \<Rightarrow> row_text row k)"
  by (induction ks) (auto simp: row_has_def row_text_def split: option.splits)

text \<open>
  C5, as the scripts have it: each extractor consults its own alias list in the order of that
  list. For the barcode \<open>ItemCode\<close> comes first in every script, so a record with
  \<open>ItemCode=A\<close> and \<open>Barcode=B\<close> yields the trimmed \<open>A\<close>. For the name,
  \<open>fetch_all_chains\<close> tries ItemName, ItemNm, ProductName, name; \<open>scrape_simple\<close> tries
  ItemName, ItemNm, ProductName; \<open>scrape_prices\<close> tries ItemName, ProductName, name, ItemNm;
  \<open>import_kaggle\<close> tries ItemName, item_name, ProductName, product_name.
\<close>

theorem alias_order_per_extractor:
  "item_barcode item =
     (case List.find (has_text item) [''ItemCode'', ''Barcode'', ''barcode''] of
        None \<Rightarrow> None | Some tag \<Rightarrow> Some (strip (text_of item tag)))
   \<and> simple_barcode item =
     (case List.find (has_text item) [''ItemCode'', ''Barcode'', ''barcode''] of
        None \<Rightarrow> None | Some tag \<Rightarrow> Some (strip (text_of item tag)))
   \<and> scraped_barcode item =
     (case List.find (has_text item) [''ItemCode'', ''Barcode'', ''barcode''] of
        None \<Rightarrow> [] | Some tag \<Rightarrow> strip (text_of item tag))
   \<and> csv_barcode row =
     strip (case List.find (row_has row) [''ItemCode'', ''item_code'', ''Barcode'', ''barcode''] of
              None \<Rightarrow> [] | Some k \<Rightarrow> row_text row k)
   \<and> (has_text item ''ItemCode'' \<longrightarrow>
        item_barcode item = Some (strip (text_of item ''ItemCode''))
        \<and> simple_barcode item = Some (strip (text_of item ''ItemCode''))
        \<and> scraped_barcode item = strip (text_of item ''ItemCode''))
   \<and> (row_has row ''ItemCode'' \<longrightarrow> csv_barcode row = strip (row_text row ''ItemCode''))
   \<and> item_name item =
     (case List.find (has_text item) [''ItemName'', ''ItemNm'', ''ProductName'', ''name''] of
        None \<Rightarrow> None | Some tag \<Rightarrow> Some (strip (text_of item tag)))
   \<and> simple_name item =
     (case List.find (has_text item) [''ItemName'', ''ItemNm'', ''ProductName''] of
        None \<Rightarrow> None | Some tag \<Rightarrow> Some (strip (text_of item tag)))
   \<and> scraped_name item =
     (case List.find (has_text item) [''ItemName'', ''ProductName'', ''name'', ''ItemNm''] of
        None \<Rightarrow> [] | Some tag \<Rightarrow> strip (text_of item tag))
   \<and> csv_name row =
     strip (case List.find (row_has row) [''ItemName'', ''item_name'', ''ProductName'', ''product_name''] of
              None \<Rightarrow> [] | Some k \<Rightarrow> row_text row k)"
  unfolding item_barcode_def simple_barcode_def scraped_barcode_def csv_barcode_def
    item_name_def simple_name_def scraped_name_def csv_name_def
    first_text_find get_xml_text_find or_get_find
  by (simp split: option.splits)

theorem alias_order_per_extractor_witness:
  "has_text [(''ItemCode'', Some ''A''), (''Barcode'', Some ''B'')] ''ItemCode''
   \<and> row_has [''ItemCode'' \<mapsto> ''A'', ''Barcode'' \<mapsto> ''B''] ''ItemCode''
   \<and> item_barcode [(''ItemCode'', Some ''A''), (''Barcode'', Some ''B'')] = Some ''A''
   \<and> simple_barcode [(''ItemCode'', Some ''A''), (''Barcode'', Some ''B'')] = Some ''A''
   \<and> scraped_barcode [(''ItemCode'', Some ''A''), (''Barcode'', Some ''B'')] = ''A''
   \<and> csv_barcode [''ItemCode'' \<mapsto> ''A'', ''Barcode'' \<mapsto> ''B''] = ''A''"
proof -
  have h: "has_text [(''ItemCode'', Some ''A''), (''Barcode'', Some ''B'')] ''ItemCode''"
    by code_simp
  have r: "row_has [''ItemCode'' \<mapsto> ''A'', ''Barcode'' \<mapsto> ''B''] ''ItemCode''"
    by (simp add: row_has_def)
  have t: "strip (text_of [(''ItemCode'', Some ''A''), (''Barcode'', Some ''B'')] ''ItemCode'') = ''A''"
    by code_simp
  have u: "strip (row_text [''ItemCode'' \<mapsto> ''A'', ''Barcode'' \<mapsto> ''B''] ''ItemCode'') = ''A''"
    by (simp add: row_text_def strip_def is_space_def)
  show ?thesis
    using h r t u
      alias_order_per_extractor [of "[(''ItemCode'', Some ''A''), (''Barcode'', Some ''B'')]"
        "[''ItemCode'' \<mapsto> ''A'', ''Barcode'' \<mapsto> ''B'']"]
    by metis
qed

text \<open>
  The order of the alias table does not hold in \<open>scrape_prices\<close>: with both \<open>ItemNm\<close> and
  \<open>ProductName\<close> present it takes \<open>ProductName\<close>, where the table's order (and
  \<open>fetch_all_chains\<close>) takes \<open>ItemNm\<close>.
\<close>

theorem name_alias_order_counterexample:
  "scraped_name [(''ItemNm'', Some ''X''), (''ProductName'', Some ''Y'')] = ''Y''
   \<and> get_xml_text [(''ItemNm'', Some ''X''), (''ProductName'', Some ''Y'')] spec_name_aliases = ''X''
   \<and> item_name [(''ItemNm'', Some ''X''), (''ProductName'', Some ''Y'')] = Some ''X''"
  by code_simp

text \<open>
  C6, as the scripts have it: the extractor returns the trimmed text of the first alias whose
  element is present with non-empty text before trimming. A value of whitespace only is
  therefore selected and yields the empty text; it is not skipped for a later alias. When no
  alias has text, \<open>get_xml_text\<close> returns the empty text and the inline loops leave
  \<open>None\<close>; neither raises.
\<close>

theorem extractor_takes_first_raw_text:
  "get_xml_text element names =
     (case List.find (has_text element) names of None \<Rightarrow> [] | Some n \<Rightarrow> strip (text_of element n))
   \<and> first_text item tags =
     (case List.find (has_text item) tags of None \<Rightarrow> None | Some tag \<Rightarrow> Some (text_of item tag))
   \<and> (has_text element n \<and> strip (text_of element n) = [] \<longrightarrow> get_xml_text element (n # names) = [])
   \<and> (has_text item n \<and> strip (text_of item n) = [] \<longrightarrow>
        map_option strip (first_text item (n # tags)) = Some [])"
  by (simp add: get_xml_text_find first_text_find)

theorem extractor_takes_first_raw_text_witness:
  "has_text [(''ItemCode'', Some ''  ''), (''Barcode'', Some ''B'')] ''ItemCode''
   \<and> strip (text_of [(''ItemCode'', Some ''  ''), (''Barcode'', Some ''B'')] ''ItemCode'') = []
   \<and> get_xml_text [(''ItemCode'', Some ''  ''), (''Barcode'', Some ''B'')] [''ItemCode'', ''Barcode'', ''barcode''] = []
   \<and> map_option strip (first_text [(''ItemCode'', Some ''  ''), (''Barcode'', Some ''B'')] [''ItemCode'', ''Barcode'', ''barcode'']) = Some []"
proof -
  have h: "has_text [(''ItemCode'', Some ''  ''), (''Barcode'', Some ''B'')] ''ItemCode''"
    by code_simp
  have e: "strip (text_of [(''ItemCode'', Some ''  ''), (''Barcode'', Some ''B'')] ''ItemCode'') = []"
    by code_simp
  show ?thesis
    using h e
      extractor_takes_first_raw_text [of "[(''ItemCode'', Some ''  ''), (''Barcode'', Some ''B'')]"
        "[''Barcode'', ''barcode'']" "[(''ItemCode'', Some ''  ''), (''Barcode'', Some ''B'')]"
        "[''Barcode'', ''barcode'']" "''ItemCode''"]
    by blast
qed

text \<open>
  The specification's extractor skips the whitespace-only \<open>ItemCode\<close> and returns the
  \<open>Barcode\<close>; the scripts return the empty text.
\<close>

theorem whitespace_alias_not_skipped_counterexample:
  "spec_extract [(''ItemCode'', Some ''  ''), (''Barcode'', Some ''B'')] [''ItemCode'', ''Barcode'', ''barcode''] = Some ''B''
   \<and> get_xml_text [(''ItemCode'', Some ''  ''), (''Barcode'', Some ''B'')] [''ItemCode'', ''Barcode'', ''barcode''] = []
   \<and> item_barcode [(''ItemCode'', Some ''  ''), (''Barcode'', Some ''B'')] = Some []"
  by code_simp

end
